theory Spec2Isabelle
  imports Complex_Main
begin

section \<open>Cross-exchange market making: data model\<close>

text \<open>
  The strategy computes with Python \<open>Decimal\<close> and C \<open>double\<close> values. Both are modelled
  by exact rationals: prices, sizes, balances and timestamps are of type \<open>rat\<close>, and the
  conversions \<open>float(...)\<close> and \<open>Decimal(...)\<close> of the source are the identity.
\<close>

datatype exc = ZeroDivisionError | TypeError | KeyError | VenueError

datatype order_type = LIMIT | MARKET

text \<open>What the strategy reads from an \<open>OrderBook\<close>. \<open>c_get_vwap_for_volume\<close> raises
  \<open>ZeroDivisionError\<close> on an empty book: that is the value \<open>None\<close>.\<close>

record order_book =
  ob_get_price :: "bool \<Rightarrow> rat"
  ob_get_price_for_volume :: "bool \<Rightarrow> rat \<Rightarrow> rat"
  ob_get_vwap_for_volume :: "bool \<Rightarrow> rat \<Rightarrow> rat option"

text \<open>The arguments of one call of the venue adapter's \<open>buy\<close> or \<open>sell\<close>. The default
  price \<open>s_decimal_nan\<close> and the default expiration \<open>NaN\<close> are \<open>None\<close>.\<close>

record order_request =
  req_is_buy :: bool
  req_market :: string
  req_trading_pair :: string
  req_amount :: rat
  req_order_type :: order_type
  req_price :: "rat option"
  req_expiration :: "rat option"

text \<open>What the strategy uses of a \<open>MarketBase\<close>. \<open>place_order\<close> is the adapter's answer to
  a \<open>buy\<close> or \<open>sell\<close>: the new client order id, or \<open>None\<close> when the call raises.\<close>

record market =
  market_name :: string
  get_balance :: "string \<Rightarrow> rat"
  get_available_balance :: "string \<Rightarrow> rat"
  get_price :: "string \<Rightarrow> bool \<Rightarrow> rat"
  quantize_order_amount :: "string \<Rightarrow> rat \<Rightarrow> rat"
  get_order_price_quantum :: "string \<Rightarrow> rat \<Rightarrow> rat"
  place_order :: "order_request \<Rightarrow> string option"

record market_symbol_pair =
  market :: market
  trading_pair :: string
  base_asset :: string
  quote_asset :: string
  order_book :: order_book

text \<open>A \<open>CrossExchangeMarketPair\<close>. The dictionaries of the strategy are keyed by the
  pair object; the model keys them by \<open>pair_id\<close>.\<close>

record cross_exchange_market_pair =
  pair_id :: nat
  maker :: market_symbol_pair
  taker :: market_symbol_pair

record limit_order =
  client_order_id :: string
  symbol :: string
  is_buy :: bool
  price :: rat
  quantity :: rat

record order_filled_event =
  event_amount :: rat
  event_price :: rat

type_synonym order_fill_record = "limit_order option \<times> order_filled_event"

text \<open>The parameters fixed by \<open>__init__\<close>. \<open>convert_token_value\<close> is the rate of the
  exchange rate oracle: the value of one unit of the first asset in the second.\<close>

record config =
  min_profitability :: rat
  order_size_taker_balance_factor :: rat
  order_amount :: "rat option"
  order_size_portfolio_ratio_limit :: rat
  active_order_canceling :: bool
  anti_hysteresis_duration :: rat
  cancel_order_threshold :: rat
  limit_order_min_expiration :: rat
  adjust_orders_enabled :: bool
  top_depth_tolerance :: rat
  convert_token_value :: "string \<Rightarrow> string \<Rightarrow> rat"
  market_pairs :: "((string \<times> string) \<times> cross_exchange_market_pair) list"

text \<open>The mutable fields of the strategy object, the taker orders of the order tracker,
  and the two effects on the venues: the cancel requests sent (\<open>cancelled\<close>) and the order
  requests the venue adapter accepted (\<open>placed\<close>), both in the order of the calls.\<close>

record strategy =
  anti_hysteresis_timers :: "nat \<rightharpoonup> rat"
  order_fill_buy_events :: "nat \<rightharpoonup> order_fill_record list"
  order_fill_sell_events :: "nat \<rightharpoonup> order_fill_record list"
  suggested_price_samples :: "nat \<rightharpoonup> rat list \<times> rat list"
  last_timestamp :: rat
  current_timestamp :: rat
  all_markets_ready :: bool
  market_pair_tracker :: "string \<rightharpoonup> nat"
  tracked_taker_orders :: "nat \<rightharpoonup> string list"
  cancelled :: "string list"
  placed :: "order_request list"

text \<open>A division of the source raises on a zero divisor, where HOL's \<open>x / 0\<close> is \<open>0\<close>.\<close>

definition py_div :: "rat \<Rightarrow> rat \<Rightarrow> exc + rat" where
  "py_div a b = (if b = 0 then Inl ZeroDivisionError else Inr (a / b))"

section \<open>Cancelling and placing orders\<close>

definition c_cancel_order :: "cross_exchange_market_pair \<Rightarrow> string \<Rightarrow> strategy \<Rightarrow> strategy" where
  "c_cancel_order market_pair order_id st = st\<lparr>cancelled := cancelled st @ [order_id]\<rparr>"

text \<open>\<open>c_buy_with_specific_market\<close> and \<open>c_sell_with_specific_market\<close>: a LIMIT order goes
  to the maker leg and a MARKET order to the taker leg. When the venue adapter raises,
  the exception leaves the function before the order id is tracked.\<close>

definition submit_order ::
  "config \<Rightarrow> cross_exchange_market_pair \<Rightarrow> bool \<Rightarrow> rat \<Rightarrow> order_type \<Rightarrow> rat option \<Rightarrow> strategy
    \<Rightarrow> (exc + string) \<times> strategy" where
  "submit_order cfg market_pair buy amount otype oprice st =
     (let market_symbol_pair = (if otype = LIMIT then maker market_pair else taker market_pair);
          expiration_seconds = (if \<not> active_order_canceling cfg
                                then Some (limit_order_min_expiration cfg) else None);
          request = \<lparr>req_is_buy = buy,
                     req_market = market_name (market market_symbol_pair),
                     req_trading_pair = trading_pair market_symbol_pair,
                     req_amount = amount, req_order_type = otype, req_price = oprice,
                     req_expiration = expiration_seconds\<rparr>
      in case place_order (market market_symbol_pair) request of
           None \<Rightarrow> (Inl VenueError, st)
         | Some order_id \<Rightarrow>
             (Inr order_id,
              st\<lparr>market_pair_tracker := (market_pair_tracker st)(order_id \<mapsto> pair_id market_pair),
                 placed := placed st @ [request]\<rparr>))"

definition c_buy_with_specific_market ::
  "config \<Rightarrow> cross_exchange_market_pair \<Rightarrow> rat \<Rightarrow> order_type \<Rightarrow> rat option \<Rightarrow> strategy
    \<Rightarrow> (exc + string) \<times> strategy" where
  "c_buy_with_specific_market cfg market_pair amount otype oprice st =
     submit_order cfg market_pair True amount otype oprice st"

definition c_sell_with_specific_market ::
  "config \<Rightarrow> cross_exchange_market_pair \<Rightarrow> rat \<Rightarrow> order_type \<Rightarrow> rat option \<Rightarrow> strategy
    \<Rightarrow> (exc + string) \<times> strategy" where
  "c_sell_with_specific_market cfg market_pair amount otype oprice st =
     submit_order cfg market_pair False amount otype oprice st"

section \<open>Profitability of an active order\<close>

text \<open>\<open>c_check_if_still_profitable\<close>: the result is \<open>True\<close> when the order stays and
  \<open>False\<close> when it is being cancelled.\<close>

definition c_check_if_still_profitable ::
  "config \<Rightarrow> cross_exchange_market_pair \<Rightarrow> limit_order \<Rightarrow> rat option \<Rightarrow> strategy
    \<Rightarrow> bool \<times> strategy" where
  "c_check_if_still_profitable cfg market_pair active_order current_hedging_price st =
     (let order_price = price active_order;
          threshold = (if \<not> active_order_canceling cfg then cancel_order_threshold cfg
                       else min_profitability cfg)
      in case current_hedging_price of
           None \<Rightarrow> (False, c_cancel_order market_pair (client_order_id active_order) st)
         | Some hedging_price \<Rightarrow>
             if (is_buy active_order \<and> hedging_price < order_price * (1 + threshold)) \<or>
                (\<not> is_buy active_order \<and> order_price < hedging_price * (1 + threshold))
             then (False, c_cancel_order market_pair (client_order_id active_order) st)
             else (True, st))"

section \<open>Price sampler\<close>

definition ORDER_ADJUST_SAMPLE_INTERVAL :: rat where
  "ORDER_ADJUST_SAMPLE_INTERVAL = 5"

definition ORDER_ADJUST_SAMPLE_WINDOW :: nat where
  "ORDER_ADJUST_SAMPLE_WINDOW = 12"

definition c_get_suggested_price_samples ::
  "strategy \<Rightarrow> cross_exchange_market_pair \<Rightarrow> rat list \<times> rat list" where
  "c_get_suggested_price_samples st market_pair =
     (case suggested_price_samples st (pair_id market_pair) of
        Some samples \<Rightarrow> samples
      | None \<Rightarrow> ([], []))"

text \<open>\<open>c_get_top_bid_ask\<close>: the source uses what \<open>c_get_price_for_volume\<close> returns as the
  price itself.\<close>

definition c_get_top_bid_ask :: "config \<Rightarrow> cross_exchange_market_pair \<Rightarrow> rat \<times> rat" where
  "c_get_top_bid_ask cfg market_pair =
     (let maker_order_book = order_book (maker market_pair)
      in if top_depth_tolerance cfg = 0
         then (ob_get_price maker_order_book False, ob_get_price maker_order_book True)
         else (ob_get_price_for_volume maker_order_book False (top_depth_tolerance cfg),
               ob_get_price_for_volume maker_order_book True (top_depth_tolerance cfg)))"

definition c_get_top_bid_ask_from_price_samples ::
  "config \<Rightarrow> strategy \<Rightarrow> cross_exchange_market_pair \<Rightarrow> rat \<times> rat" where
  "c_get_top_bid_ask_from_price_samples cfg st market_pair =
     (let (current_top_bid_price, current_top_ask_price) = c_get_top_bid_ask cfg market_pair;
          (bid_price_samples, ask_price_samples) = c_get_suggested_price_samples st market_pair
      in (Max (set (bid_price_samples @ [current_top_bid_price])),
          Min (set (ask_price_samples @ [current_top_ask_price]))))"

text \<open>The loop \<open>while len(d) > ORDER_ADJUST_SAMPLE_WINDOW: d.popleft()\<close>.\<close>

function popleft_while :: "rat list \<Rightarrow> rat list" where
  "popleft_while d =
     (if length d > ORDER_ADJUST_SAMPLE_WINDOW then popleft_while (tl d) else d)"
  by pat_completeness auto
termination
  by (relation "measure length") (auto simp: ORDER_ADJUST_SAMPLE_WINDOW_def)

declare popleft_while.simps [simp del]

definition c_take_suggested_price_sample ::
  "config \<Rightarrow> cross_exchange_market_pair \<Rightarrow> strategy \<Rightarrow> strategy" where
  "c_take_suggested_price_sample cfg market_pair st =
     (if \<lfloor>last_timestamp st / ORDER_ADJUST_SAMPLE_INTERVAL\<rfloor>
           < \<lfloor>current_timestamp st / ORDER_ADJUST_SAMPLE_INTERVAL\<rfloor>
      then
        (let st1 = (if suggested_price_samples st (pair_id market_pair) = None
                    then st\<lparr>suggested_price_samples :=
                              (suggested_price_samples st)(pair_id market_pair \<mapsto> ([], []))\<rparr>
                    else st);
             (top_bid_price, top_ask_price) =
                c_get_top_bid_ask_from_price_samples cfg st1 market_pair;
             (bid_price_samples_deque, ask_price_samples_deque) =
                c_get_suggested_price_samples st1 market_pair
         in st1\<lparr>suggested_price_samples :=
                   (suggested_price_samples st1)(pair_id market_pair \<mapsto>
                      (popleft_while (bid_price_samples_deque @ [top_bid_price]),
                       popleft_while (ask_price_samples_deque @ [top_ask_price])))\<rparr>)
      else st)"

section \<open>Pricer\<close>

definition c_calculate_effective_hedging_price ::
  "config \<Rightarrow> cross_exchange_market_pair \<Rightarrow> bool \<Rightarrow> rat \<Rightarrow> rat option" where
  "c_calculate_effective_hedging_price cfg market_pair is_bid order_size =
     (let taker_order_book = order_book (taker market_pair)
      in if is_bid then
           (case ob_get_vwap_for_volume taker_order_book False order_size of
              None \<Rightarrow> None
            | Some taker_price \<Rightarrow>
                if quote_asset (maker market_pair) \<noteq> quote_asset (taker market_pair)
                then Some (taker_price * convert_token_value cfg (quote_asset (taker market_pair))
                                            (quote_asset (maker market_pair)))
                else Some taker_price)
         else
           (case ob_get_vwap_for_volume taker_order_book True order_size of
              None \<Rightarrow> None
            | Some taker_price \<Rightarrow>
                if quote_asset (maker market_pair) \<noteq> quote_asset (taker market_pair)
                then Some (taker_price * convert_token_value cfg (quote_asset (taker market_pair))
                                            (quote_asset (maker market_pair)))
                else Some taker_price))"

text \<open>\<open>c_get_market_making_price\<close>: \<open>Inr None\<close> is the returned \<open>None\<close>. The two price
  quanta are looked up as in the source: at the smoothed top for the clamp, at the
  clamped price for the final rounding.\<close>

definition c_get_market_making_price ::
  "config \<Rightarrow> strategy \<Rightarrow> cross_exchange_market_pair \<Rightarrow> bool \<Rightarrow> rat \<Rightarrow> exc + rat option" where
  "c_get_market_making_price cfg st market_pair is_bid order_size =
     (let maker_market = market (maker market_pair);
          taker_order_book = order_book (taker market_pair);
          (top_bid_price, top_ask_price) = c_get_top_bid_ask_from_price_samples cfg st market_pair
      in if is_bid then
           (let price_quantum = get_order_price_quantum maker_market
                                  (trading_pair (maker market_pair)) top_bid_price
            in case py_div top_bid_price price_quantum of
                 Inl e \<Rightarrow> Inl e
               | Inr ticks \<Rightarrow>
                  (let price_above_bid = (of_int \<lceil>ticks\<rceil> + 1) * price_quantum
                   in case ob_get_vwap_for_volume taker_order_book False order_size of
                        None \<Rightarrow> Inr None
                      | Some vwap \<Rightarrow>
                         (let taker_price =
                                (if quote_asset (maker market_pair) \<noteq> quote_asset (taker market_pair)
                                 then vwap * convert_token_value cfg (quote_asset (taker market_pair))
                                                (quote_asset (maker market_pair))
                                 else vwap)
                          in case py_div taker_price (1 + min_profitability cfg) of
                               Inl e \<Rightarrow> Inl e
                             | Inr raw_price \<Rightarrow>
                                (let maker_price = (if adjust_orders_enabled cfg
                                                    then min raw_price price_above_bid
                                                    else raw_price);
                                     price_quantum = get_order_price_quantum maker_market
                                                       (trading_pair (maker market_pair)) maker_price
                                 in case py_div maker_price price_quantum of
                                      Inl e \<Rightarrow> Inl e
                                    | Inr ticks \<Rightarrow> Inr (Some (of_int \<lfloor>ticks\<rfloor> * price_quantum))))))
         else
           (let price_quantum = get_order_price_quantum maker_market
                                  (trading_pair (maker market_pair)) top_ask_price
            in case py_div top_ask_price price_quantum of
                 Inl e \<Rightarrow> Inl e
               | Inr ticks \<Rightarrow>
                  (let next_price_below_top_ask = (of_int \<lfloor>ticks\<rfloor> - 1) * price_quantum
                   in case ob_get_vwap_for_volume taker_order_book True order_size of
                        None \<Rightarrow> Inr None
                      | Some vwap \<Rightarrow>
                         (let taker_price =
                                (if quote_asset (maker market_pair) \<noteq> quote_asset (taker market_pair)
                                 then vwap * convert_token_value cfg (quote_asset (taker market_pair))
                                                (quote_asset (maker market_pair))
                                 else vwap);
                              raw_price = taker_price * (1 + min_profitability cfg);
                              maker_price = (if adjust_orders_enabled cfg
                                             then max raw_price next_price_below_top_ask
                                             else raw_price);
                              price_quantum = get_order_price_quantum maker_market
                                                (trading_pair (maker market_pair)) maker_price
                          in case py_div maker_price price_quantum of
                               Inl e \<Rightarrow> Inl e
                             | Inr ticks \<Rightarrow> Inr (Some (of_int \<lceil>ticks\<rceil> * price_quantum))))))"

section \<open>Sizer\<close>

definition c_get_order_size_after_portfolio_ratio_limit ::
  "config \<Rightarrow> cross_exchange_market_pair \<Rightarrow> exc + rat" where
  "c_get_order_size_after_portfolio_ratio_limit cfg market_pair =
     (let maker_market = market (maker market_pair);
          symbol = trading_pair (maker market_pair);
          base_balance = get_balance maker_market (base_asset (maker market_pair));
          quote_balance = get_balance maker_market (quote_asset (maker market_pair));
          current_price = (get_price maker_market symbol True
                           + get_price maker_market symbol False) * (1 / 2)
      in case py_div quote_balance current_price of
           Inl e \<Rightarrow> Inl e
         | Inr quote_in_base \<Rightarrow>
             (let maker_portfolio_value = base_balance + quote_in_base;
                  adjusted_order_size =
                    maker_portfolio_value * order_size_portfolio_ratio_limit cfg
              in Inr (quantize_order_amount maker_market symbol adjusted_order_size)))"

definition c_get_adjusted_limit_order_size ::
  "config \<Rightarrow> cross_exchange_market_pair \<Rightarrow> exc + rat" where
  "c_get_adjusted_limit_order_size cfg market_pair =
     (let maker_market = market (maker market_pair);
          symbol = trading_pair (maker market_pair)
      in case order_amount cfg of
           Some base_order_size \<Rightarrow>
             if base_order_size \<noteq> 0 \<and> base_order_size > 0
             then Inr (quantize_order_amount maker_market symbol base_order_size)
             else c_get_order_size_after_portfolio_ratio_limit cfg market_pair
         | None \<Rightarrow> c_get_order_size_after_portfolio_ratio_limit cfg market_pair)"

definition c_get_market_making_size ::
  "config \<Rightarrow> cross_exchange_market_pair \<Rightarrow> bool \<Rightarrow> exc + rat" where
  "c_get_market_making_size cfg market_pair is_bid =
     (let maker_market = market (maker market_pair);
          taker_market = market (taker market_pair);
          taker_order_book = order_book (taker market_pair)
      in if is_bid then
           (let maker_balance_in_quote =
                  get_available_balance maker_market (quote_asset (maker market_pair));
                taker_balance =
                  get_available_balance taker_market (base_asset (taker market_pair))
                    * order_size_taker_balance_factor cfg
            in case c_get_adjusted_limit_order_size cfg market_pair of
                 Inl e \<Rightarrow> Inl e
               | Inr user_order \<Rightarrow>
                  (let taker_price =
                         (case ob_get_vwap_for_volume taker_order_book False user_order of
                            Some result_price \<Rightarrow> result_price
                          | None \<Rightarrow> (let top_ask_price = ob_get_price taker_order_book True
                                     in top_ask_price))
                   in case py_div maker_balance_in_quote taker_price of
                        Inl e \<Rightarrow> Inl e
                      | Inr maker_balance \<Rightarrow>
                         (let order_amount = min maker_balance (min taker_balance user_order)
                          in Inr (quantize_order_amount maker_market
                                    (trading_pair (maker market_pair)) order_amount))))
         else
           (let maker_balance =
                  get_available_balance maker_market (base_asset (maker market_pair));
                taker_balance_in_quote =
                  get_available_balance taker_market (quote_asset (taker market_pair))
                    * order_size_taker_balance_factor cfg
            in case c_get_adjusted_limit_order_size cfg market_pair of
                 Inl e \<Rightarrow> Inl e
               | Inr user_order \<Rightarrow>
                  (let taker_price =
                         (case ob_get_vwap_for_volume taker_order_book True user_order of
                            Some result_price \<Rightarrow> result_price
                          | None \<Rightarrow> (let top_bid_price = ob_get_price taker_order_book True
                                     in top_bid_price))
                   in case py_div taker_balance_in_quote taker_price of
                        Inl e \<Rightarrow> Inl e
                      | Inr taker_balance \<Rightarrow>
                         (let order_amount = min maker_balance (min taker_balance user_order)
                          in Inr (quantize_order_amount maker_market
                                    (trading_pair (maker market_pair)) order_amount)))))"

section \<open>Order supervisor\<close>

definition c_check_if_sufficient_balance ::
  "config \<Rightarrow> cross_exchange_market_pair \<Rightarrow> limit_order \<Rightarrow> strategy \<Rightarrow> (exc + bool) \<times> strategy" where
  "c_check_if_sufficient_balance cfg market_pair active_order st =
     (let order_price = price active_order;
          maker_market = market (maker market_pair);
          taker_market = market (taker market_pair);
          quote_asset_amount =
            (if is_buy active_order
             then get_balance maker_market (quote_asset (maker market_pair))
             else get_balance taker_market (quote_asset (taker market_pair)));
          base_asset_amount =
            (if is_buy active_order
             then get_balance taker_market (base_asset (taker market_pair))
             else get_balance maker_market (base_asset (maker market_pair)))
      in case py_div quote_asset_amount order_price of
           Inl e \<Rightarrow> (Inl e, st)
         | Inr quote_in_base \<Rightarrow>
             (let order_size_limit = min base_asset_amount quote_in_base;
                  quantized_size_limit =
                    quantize_order_amount maker_market (symbol active_order) order_size_limit
              in if quantity active_order > quantized_size_limit
                 then (Inr False, c_cancel_order market_pair (client_order_id active_order) st)
                 else (Inr True, st)))"

text \<open>\<open>c_check_if_price_has_drifted\<close>: \<open>float(None)\<close> raises \<open>TypeError\<close> when the pricer
  returns \<open>None\<close>.\<close>

definition c_check_if_price_has_drifted ::
  "config \<Rightarrow> cross_exchange_market_pair \<Rightarrow> limit_order \<Rightarrow> strategy \<Rightarrow> (exc + bool) \<times> strategy" where
  "c_check_if_price_has_drifted cfg market_pair active_order st =
     (let order_price = price active_order;
          order_quantity = quantity active_order
      in case c_get_market_making_price cfg st market_pair (is_buy active_order) order_quantity of
           Inl e \<Rightarrow> (Inl e, st)
         | Inr None \<Rightarrow> (Inl TypeError, st)
         | Inr (Some suggested_price) \<Rightarrow>
             if suggested_price \<noteq> order_price
             then (Inr False, c_cancel_order market_pair (client_order_id active_order) st)
             else (Inr True, st))"

text \<open>The two blocks of \<open>c_check_and_create_new_orders\<close>. Assigning a \<open>None\<close> hedging
  price to the \<open>double\<close> variable raises \<open>TypeError\<close>.\<close>

definition create_new_bid ::
  "config \<Rightarrow> cross_exchange_market_pair \<Rightarrow> strategy \<Rightarrow> (exc + unit) \<times> strategy" where
  "create_new_bid cfg market_pair st =
     (case c_get_market_making_size cfg market_pair True of
        Inl e \<Rightarrow> (Inl e, st)
      | Inr bid_size \<Rightarrow>
          if bid_size > 0 then
            (case c_get_market_making_price cfg st market_pair True bid_size of
               Inl e \<Rightarrow> (Inl e, st)
             | Inr None \<Rightarrow> (Inr (), st)
             | Inr (Some bid_price) \<Rightarrow>
                 (case c_calculate_effective_hedging_price cfg market_pair True bid_size of
                    None \<Rightarrow> (Inl TypeError, st)
                  | Some effective_hedging_price \<Rightarrow>
                      (case c_buy_with_specific_market cfg market_pair bid_size LIMIT
                              (Some bid_price) st of
                         (Inl e, st') \<Rightarrow> (Inl e, st')
                       | (Inr order_id, st') \<Rightarrow> (Inr (), st'))))
          else (Inr (), st))"

definition create_new_ask ::
  "config \<Rightarrow> cross_exchange_market_pair \<Rightarrow> strategy \<Rightarrow> (exc + unit) \<times> strategy" where
  "create_new_ask cfg market_pair st =
     (case c_get_market_making_size cfg market_pair False of
        Inl e \<Rightarrow> (Inl e, st)
      | Inr ask_size \<Rightarrow>
          if ask_size > 0 then
            (case c_get_market_making_price cfg st market_pair False ask_size of
               Inl e \<Rightarrow> (Inl e, st)
             | Inr None \<Rightarrow> (Inr (), st)
             | Inr (Some ask_price) \<Rightarrow>
                 (case c_calculate_effective_hedging_price cfg market_pair False ask_size of
                    None \<Rightarrow> (Inl TypeError, st)
                  | Some effective_hedging_price \<Rightarrow>
                      (case c_sell_with_specific_market cfg market_pair ask_size LIMIT
                              (Some ask_price) st of
                         (Inl e, st') \<Rightarrow> (Inl e, st')
                       | (Inr order_id, st') \<Rightarrow> (Inr (), st'))))
          else (Inr (), st))"

definition c_check_and_create_new_orders ::
  "config \<Rightarrow> cross_exchange_market_pair \<Rightarrow> bool \<Rightarrow> bool \<Rightarrow> strategy \<Rightarrow> (exc + unit) \<times> strategy" where
  "c_check_and_create_new_orders cfg market_pair has_active_bid has_active_ask st =
     (case (if \<not> has_active_bid then create_new_bid cfg market_pair st else (Inr (), st)) of
        (Inl e, st1) \<Rightarrow> (Inl e, st1)
      | (Inr u, st1) \<Rightarrow>
          if \<not> has_active_ask then create_new_ask cfg market_pair st1 else (Inr (), st1))"

text \<open>The body of the loop of \<open>c_process_market_pair\<close> for one active order, after the
  two flags are marked: the result is \<open>True\<close> when the iteration sets
  \<open>need_adjust_order\<close>.\<close>

definition check_active_order ::
  "config \<Rightarrow> cross_exchange_market_pair \<Rightarrow> rat \<Rightarrow> limit_order \<Rightarrow> strategy
    \<Rightarrow> (exc + bool) \<times> strategy" where
  "check_active_order cfg market_pair anti_hysteresis_timer active_order st =
     (let current_hedging_price =
            c_calculate_effective_hedging_price cfg market_pair (is_buy active_order)
              (quantity active_order)
      in case c_check_if_still_profitable cfg market_pair active_order current_hedging_price st of
           (False, st1) \<Rightarrow> (Inr False, st1)
         | (True, st1) \<Rightarrow>
             if \<not> active_order_canceling cfg then (Inr False, st1)
             else
               (case c_check_if_sufficient_balance cfg market_pair active_order st1 of
                  (Inl e, st2) \<Rightarrow> (Inl e, st2)
                | (Inr False, st2) \<Rightarrow> (Inr False, st2)
                | (Inr True, st2) \<Rightarrow>
                    if current_timestamp st2 > anti_hysteresis_timer then
                      (case c_check_if_price_has_drifted cfg market_pair active_order st2 of
                         (Inl e, st3) \<Rightarrow> (Inl e, st3)
                       | (Inr False, st3) \<Rightarrow> (Inr True, st3)
                       | (Inr True, st3) \<Rightarrow> (Inr False, st3))
                    else (Inr False, st2)))"

text \<open>The loop over the active orders, carrying \<open>has_active_bid\<close>, \<open>has_active_ask\<close> and
  \<open>need_adjust_order\<close>.\<close>

fun check_active_orders ::
  "config \<Rightarrow> cross_exchange_market_pair \<Rightarrow> rat \<Rightarrow> limit_order list \<Rightarrow> bool \<times> bool \<times> bool
    \<Rightarrow> strategy \<Rightarrow> (exc + bool \<times> bool \<times> bool) \<times> strategy" where
  "check_active_orders cfg market_pair timer [] flags st = (Inr flags, st)"
| "check_active_orders cfg market_pair timer (active_order # rest)
       (has_active_bid, has_active_ask, need_adjust_order) st =
     (let has_active_bid = (if is_buy active_order then True else has_active_bid);
          has_active_ask = (if is_buy active_order then has_active_ask else True)
      in case check_active_order cfg market_pair timer active_order st of
           (Inl e, st1) \<Rightarrow> (Inl e, st1)
         | (Inr adjust, st1) \<Rightarrow>
             check_active_orders cfg market_pair timer rest
               (has_active_bid, has_active_ask, (if adjust then True else need_adjust_order)) st1)"

definition c_process_market_pair ::
  "config \<Rightarrow> cross_exchange_market_pair \<Rightarrow> limit_order list \<Rightarrow> strategy
    \<Rightarrow> (exc + unit) \<times> strategy" where
  "c_process_market_pair cfg market_pair active_orders st =
     (let anti_hysteresis_timer =
            (case anti_hysteresis_timers st (pair_id market_pair) of Some t \<Rightarrow> t | None \<Rightarrow> 0);
          taker_orders =
            (case tracked_taker_orders st (pair_id market_pair) of Some os \<Rightarrow> os | None \<Rightarrow> [])
      in case check_active_orders cfg market_pair anti_hysteresis_timer active_orders
                (False, False, False) st of
           (Inl e, st1) \<Rightarrow> (Inl e, st1)
         | (Inr (has_active_bid, has_active_ask, need_adjust_order), st1) \<Rightarrow>
             (let st2 = (if need_adjust_order
                         then st1\<lparr>anti_hysteresis_timers :=
                                   (anti_hysteresis_timers st1)(pair_id market_pair \<mapsto>
                                      current_timestamp st1 + anti_hysteresis_duration cfg)\<rparr>
                         else st1)
              in if has_active_bid \<and> has_active_ask then (Inr (), st2)
                 else if length taker_orders > 0 then (Inr (), st2)
                 else c_check_and_create_new_orders cfg market_pair
                        has_active_bid has_active_ask st2))"

section \<open>Fill hedger\<close>

definition fill_quantity :: "order_fill_record list \<Rightarrow> rat" where
  "fill_quantity fill_records = sum_list (map (\<lambda>(_, fill_event). event_amount fill_event) fill_records)"

definition fill_value :: "order_fill_record list \<Rightarrow> rat" where
  "fill_value fill_records = sum_list (map (\<lambda>(_, r). event_price r * event_amount r) fill_records)"

text \<open>The block of \<open>c_check_and_hedge_orders\<close> under \<open>if buy_fill_quantity > 0\<close>. The
  \<open>del\<close> of a missing key raises \<open>KeyError\<close>.\<close>

definition hedge_buy_fills ::
  "config \<Rightarrow> cross_exchange_market_pair \<Rightarrow> order_fill_record list \<Rightarrow> strategy
    \<Rightarrow> (exc + unit) \<times> strategy" where
  "hedge_buy_fills cfg market_pair buy_fill_records st =
     (let taker_market = market (taker market_pair);
          taker_symbol = trading_pair (taker market_pair);
          buy_fill_quantity = fill_quantity buy_fill_records;
          hedged_order_quantity =
            min buy_fill_quantity
                (get_available_balance taker_market (base_asset (taker market_pair))
                   * order_size_taker_balance_factor cfg);
          quantized_hedge_amount =
            quantize_order_amount taker_market taker_symbol hedged_order_quantity;
          taker_top = get_price taker_market taker_symbol False
      in case py_div (fill_value buy_fill_records) (fill_quantity buy_fill_records) of
           Inl e \<Rightarrow> (Inl e, st)
         | Inr avg_fill_price \<Rightarrow>
             if quantized_hedge_amount > 0 then
               (case c_sell_with_specific_market cfg market_pair quantized_hedge_amount
                       MARKET None st of
                  (Inl e, st1) \<Rightarrow> (Inl e, st1)
                | (Inr order_id, st1) \<Rightarrow>
                    (case order_fill_buy_events st1 (pair_id market_pair) of
                       None \<Rightarrow> (Inl KeyError, st1)
                     | Some bucket \<Rightarrow>
                         (Inr (), st1\<lparr>order_fill_buy_events :=
                                       (order_fill_buy_events st1)(pair_id market_pair := None)\<rparr>)))
             else (Inr (), st))"

text \<open>The block under \<open>if sell_fill_quantity > 0\<close>.\<close>

definition hedge_sell_fills ::
  "config \<Rightarrow> cross_exchange_market_pair \<Rightarrow> order_fill_record list \<Rightarrow> strategy
    \<Rightarrow> (exc + unit) \<times> strategy" where
  "hedge_sell_fills cfg market_pair sell_fill_records st =
     (let taker_market = market (taker market_pair);
          taker_symbol = trading_pair (taker market_pair);
          taker_order_book = order_book (taker market_pair);
          sell_fill_quantity = fill_quantity sell_fill_records
      in case py_div (get_available_balance taker_market (quote_asset (taker market_pair)))
                     (ob_get_price_for_volume taker_order_book True sell_fill_quantity) of
           Inl e \<Rightarrow> (Inl e, st)
         | Inr quote_in_base \<Rightarrow>
            (let hedged_order_quantity =
                   min sell_fill_quantity (quote_in_base * order_size_taker_balance_factor cfg);
                 quantized_hedge_amount =
                   quantize_order_amount taker_market taker_symbol hedged_order_quantity;
                 taker_top = get_price taker_market taker_symbol True
             in case py_div (fill_value sell_fill_records) (fill_quantity sell_fill_records) of
                  Inl e \<Rightarrow> (Inl e, st)
                | Inr avg_fill_price \<Rightarrow>
                    if quantized_hedge_amount > 0 then
                      (case c_buy_with_specific_market cfg market_pair quantized_hedge_amount
                              MARKET None st of
                         (Inl e, st1) \<Rightarrow> (Inl e, st1)
                       | (Inr order_id, st1) \<Rightarrow>
                           (case order_fill_sell_events st1 (pair_id market_pair) of
                              None \<Rightarrow> (Inl KeyError, st1)
                            | Some bucket \<Rightarrow>
                                (Inr (), st1\<lparr>order_fill_sell_events :=
                                              (order_fill_sell_events st1)
                                                (pair_id market_pair := None)\<rparr>)))
                    else (Inr (), st)))"

definition c_check_and_hedge_orders ::
  "config \<Rightarrow> cross_exchange_market_pair \<Rightarrow> strategy \<Rightarrow> (exc + unit) \<times> strategy" where
  "c_check_and_hedge_orders cfg market_pair st =
     (let buy_fill_records =
            (case order_fill_buy_events st (pair_id market_pair) of Some rs \<Rightarrow> rs | None \<Rightarrow> []);
          sell_fill_records =
            (case order_fill_sell_events st (pair_id market_pair) of Some rs \<Rightarrow> rs | None \<Rightarrow> []);
          buy_fill_quantity = fill_quantity buy_fill_records;
          sell_fill_quantity = fill_quantity sell_fill_records
      in case (if buy_fill_quantity > 0
               then hedge_buy_fills cfg market_pair buy_fill_records st
               else (Inr (), st)) of
           (Inl e, st1) \<Rightarrow> (Inl e, st1)
         | (Inr u, st1) \<Rightarrow>
             if sell_fill_quantity > 0
             then hedge_sell_fills cfg market_pair sell_fill_records st1
             else (Inr (), st1))"

section \<open>Clock tick\<close>

text \<open>What a tick reads from the venues and from the order tracker.\<close>

record tick_env =
  markets_ready :: bool
  active_maker_orders :: "(string \<times> limit_order) list"
  has_in_flight_cancel :: "string \<Rightarrow> bool"

text \<open>The \<open>defaultdict(list)\<close> from market pair to its active orders, filled by the first
  loop of \<open>c_tick\<close>.\<close>

fun bucket_active_orders ::
  "config \<Rightarrow> tick_env \<Rightarrow> (string \<times> limit_order) list \<Rightarrow> (nat \<Rightarrow> limit_order list)
    \<Rightarrow> nat \<Rightarrow> limit_order list" where
  "bucket_active_orders cfg env [] buckets = buckets"
| "bucket_active_orders cfg env ((maker_market, limit_order) # rest) buckets =
     (case map_of (market_pairs cfg) (maker_market, symbol limit_order) of
        None \<Rightarrow> bucket_active_orders cfg env rest buckets
      | Some market_pair \<Rightarrow>
          if \<not> has_in_flight_cancel env (client_order_id limit_order)
          then bucket_active_orders cfg env rest
                 (buckets(pair_id market_pair := buckets (pair_id market_pair) @ [limit_order]))
          else bucket_active_orders cfg env rest buckets)"

text \<open>The second loop of \<open>c_tick\<close>: an exception of \<open>c_process_market_pair\<close> leaves it.\<close>

fun process_market_pairs ::
  "config \<Rightarrow> (nat \<Rightarrow> limit_order list) \<Rightarrow> cross_exchange_market_pair list \<Rightarrow> strategy
    \<Rightarrow> (exc + unit) \<times> strategy" where
  "process_market_pairs cfg buckets [] st = (Inr (), st)"
| "process_market_pairs cfg buckets (market_pair # rest) st =
     (case c_process_market_pair cfg market_pair (buckets (pair_id market_pair)) st of
        (Inl e, st1) \<Rightarrow> (Inl e, st1)
      | (Inr u, st1) \<Rightarrow> process_market_pairs cfg buckets rest st1)"

text \<open>The \<open>try\<close> block of \<open>c_tick\<close>.\<close>

definition tick_body :: "config \<Rightarrow> tick_env \<Rightarrow> strategy \<Rightarrow> (exc + unit) \<times> strategy" where
  "tick_body cfg env st =
     (let st1 = (if \<not> all_markets_ready st
                 then st\<lparr>all_markets_ready := markets_ready env\<rparr> else st)
      in if \<not> all_markets_ready st1 then (Inr (), st1)
         else process_market_pairs cfg
                (bucket_active_orders cfg env (active_maker_orders env) (\<lambda>p. []))
                (map snd (market_pairs cfg)) st1)"

text \<open>\<open>c_tick\<close>: the base class stores the tick's timestamp as \<open>_current_timestamp\<close>; the
  \<open>finally\<close> clause stores it as \<open>_last_timestamp\<close> on every way out.\<close>

definition c_tick :: "config \<Rightarrow> tick_env \<Rightarrow> rat \<Rightarrow> strategy \<Rightarrow> (exc + unit) \<times> strategy" where
  "c_tick cfg env timestamp st =
     (case tick_body cfg env (st\<lparr>current_timestamp := timestamp\<rparr>) of
        (result, st1) \<Rightarrow> (result, st1\<lparr>last_timestamp := timestamp\<rparr>))"

section \<open>A concrete market pair\<close>

text \<open>A maker venue quoted in USD and a taker venue quoted in USD, with a price tick and
  a size tick of 0.01. The parameters are the maker top of book, the taker book's VWAPs
  (bid side, ask side) and top quotes, the balance every asset has on the taker venue,
  and whether the venues accept orders.\<close>

definition quantize_hundredths :: "rat \<Rightarrow> rat" where
  "quantize_hundredths x = of_int \<lfloor>x * 100\<rfloor> / 100"

definition ex_book :: "rat \<Rightarrow> rat \<Rightarrow> rat option \<Rightarrow> rat option \<Rightarrow> order_book" where
  "ex_book top_bid top_ask vwap_bid vwap_ask =
     \<lparr>ob_get_price = (\<lambda>is_buy. if is_buy then top_ask else top_bid),
      ob_get_price_for_volume = (\<lambda>is_buy volume. if is_buy then top_ask else top_bid),
      ob_get_vwap_for_volume = (\<lambda>is_buy volume. if is_buy then vwap_ask else vwap_bid)\<rparr>"

definition ex_market :: "string \<Rightarrow> rat \<Rightarrow> rat \<Rightarrow> rat \<Rightarrow> bool \<Rightarrow> market" where
  "ex_market name bal top_bid top_ask accepts =
     \<lparr>market_name = name,
      get_balance = (\<lambda>asset. bal),
      get_available_balance = (\<lambda>asset. bal),
      get_price = (\<lambda>sym is_buy. if is_buy then top_ask else top_bid),
      quantize_order_amount = (\<lambda>sym amount. quantize_hundredths amount),
      get_order_price_quantum = (\<lambda>sym p. 1 / 100),
      place_order = (\<lambda>request. if accepts then Some ''order-1'' else None)\<rparr>"

definition ex_pair ::
  "nat \<Rightarrow> rat \<Rightarrow> rat \<Rightarrow> rat option \<Rightarrow> rat option \<Rightarrow> rat \<Rightarrow> rat \<Rightarrow> rat \<Rightarrow> bool
    \<Rightarrow> cross_exchange_market_pair" where
  "ex_pair n maker_bid maker_ask vwap_bid vwap_ask taker_bid taker_ask taker_bal accepts =
     \<lparr>pair_id = n,
      maker = \<lparr>market = ex_market ''maker'' 1000 maker_bid maker_ask accepts,
               trading_pair = ''ETH-USD'', base_asset = ''ETH'', quote_asset = ''USD'',
               order_book = ex_book maker_bid maker_ask None None\<rparr>,
      taker = \<lparr>market = ex_market ''taker'' taker_bal taker_bid taker_ask accepts,
               trading_pair = ''ETH-USD'', base_asset = ''ETH'', quote_asset = ''USD'',
               order_book = ex_book taker_bid taker_ask vwap_bid vwap_ask\<rparr>\<rparr>"

definition ex_config :: "bool \<Rightarrow> config" where
  "ex_config active =
     \<lparr>min_profitability = 1 / 100,
      order_size_taker_balance_factor = 199 / 200,
      order_amount = Some 1,
      order_size_portfolio_ratio_limit = 1 / 6,
      active_order_canceling = active,
      anti_hysteresis_duration = 60,
      cancel_order_threshold = 1 / 20,
      limit_order_min_expiration = 130,
      adjust_orders_enabled = True,
      top_depth_tolerance = 0,
      convert_token_value = (\<lambda>from_asset to_asset. 1),
      market_pairs = []\<rparr>"

definition ex_strategy :: "rat \<Rightarrow> strategy" where
  "ex_strategy now =
     \<lparr>anti_hysteresis_timers = Map.empty,
      order_fill_buy_events = Map.empty,
      order_fill_sell_events = Map.empty,
      suggested_price_samples = Map.empty,
      last_timestamp = now,
      current_timestamp = now,
      all_markets_ready = True,
      market_pair_tracker = Map.empty,
      tracked_taker_orders = Map.empty,
      cancelled = [],
      placed = []\<rparr>"

definition ex_order :: "string \<Rightarrow> bool \<Rightarrow> rat \<Rightarrow> rat \<Rightarrow> limit_order" where
  "ex_order oid buy p q =
     \<lparr>client_order_id = oid, symbol = ''ETH-USD'', is_buy = buy, price = p, quantity = q\<rparr>"

section \<open>The pricing rule in the words of the specification\<close>

definition maker_price_tick :: "cross_exchange_market_pair \<Rightarrow> rat \<Rightarrow> rat" where
  "maker_price_tick market_pair p =
     get_order_price_quantum (market (maker market_pair)) (trading_pair (maker market_pair)) p"

definition floor_to_tick :: "rat \<Rightarrow> rat \<Rightarrow> rat" where
  "floor_to_tick tick x = of_int \<lfloor>x / tick\<rfloor> * tick"

definition ceil_to_tick :: "rat \<Rightarrow> rat \<Rightarrow> rat" where
  "ceil_to_tick tick x = of_int \<lceil>x / tick\<rceil> * tick"

text \<open>The maker price as the specification words it: the clamp is one tick past the
  smoothed top itself.\<close>

definition claimed_maker_price ::
  "config \<Rightarrow> cross_exchange_market_pair \<Rightarrow> bool \<Rightarrow> rat \<Rightarrow> rat \<Rightarrow> rat \<Rightarrow> rat" where
  "claimed_maker_price cfg market_pair is_bid top_bid top_ask taker_vwap =
     (if is_bid then
        (let raw = taker_vwap / (1 + min_profitability cfg);
             clamped = (if adjust_orders_enabled cfg
                        then min raw (top_bid + maker_price_tick market_pair top_bid) else raw)
         in floor_to_tick (maker_price_tick market_pair clamped) clamped)
      else
        (let raw = taker_vwap * (1 + min_profitability cfg);
             clamped = (if adjust_orders_enabled cfg
                        then max raw (top_ask - maker_price_tick market_pair top_ask) else raw)
         in ceil_to_tick (maker_price_tick market_pair clamped) clamped))"

text \<open>The same rule with the clamp one tick past the smoothed top rounded to the tick
  grid: up for the bid, down for the ask.\<close>

definition aligned_maker_price ::
  "config \<Rightarrow> cross_exchange_market_pair \<Rightarrow> bool \<Rightarrow> rat \<Rightarrow> rat \<Rightarrow> rat \<Rightarrow> rat" where
  "aligned_maker_price cfg market_pair is_bid top_bid top_ask taker_vwap =
     (if is_bid then
        (let raw = taker_vwap / (1 + min_profitability cfg);
             tick = maker_price_tick market_pair top_bid;
             clamped = (if adjust_orders_enabled cfg
                        then min raw (ceil_to_tick tick top_bid + tick) else raw)
         in floor_to_tick (maker_price_tick market_pair clamped) clamped)
      else
        (let raw = taker_vwap * (1 + min_profitability cfg);
             tick = maker_price_tick market_pair top_ask;
             clamped = (if adjust_orders_enabled cfg
                        then max raw (floor_to_tick tick top_ask - tick) else raw)
         in ceil_to_tick (maker_price_tick market_pair clamped) clamped))"

section \<open>The size computed from a given taker price\<close>

text \<open>What \<open>c_get_market_making_size\<close> computes once the taker price is known; it names the
  price a run of the sizer used.\<close>

definition size_for_taker_price ::
  "config \<Rightarrow> cross_exchange_market_pair \<Rightarrow> bool \<Rightarrow> rat \<Rightarrow> rat \<Rightarrow> exc + rat" where
  "size_for_taker_price cfg market_pair is_bid user_order taker_price =
     (let maker_market = market (maker market_pair);
          taker_market = market (taker market_pair)
      in if is_bid then
           (case py_div (get_available_balance maker_market (quote_asset (maker market_pair)))
                        taker_price of
              Inl e \<Rightarrow> Inl e
            | Inr maker_balance \<Rightarrow>
                Inr (quantize_order_amount maker_market (trading_pair (maker market_pair))
                       (min maker_balance
                          (min (get_available_balance taker_market (base_asset (taker market_pair))
                                  * order_size_taker_balance_factor cfg)
                               user_order))))
         else
           (case py_div (get_available_balance taker_market (quote_asset (taker market_pair))
                           * order_size_taker_balance_factor cfg)
                        taker_price of
              Inl e \<Rightarrow> Inl e
            | Inr taker_balance \<Rightarrow>
                Inr (quantize_order_amount maker_market (trading_pair (maker market_pair))
                       (min (get_available_balance maker_market (base_asset (maker market_pair)))
                          (min taker_balance user_order)))))"

section \<open>Sampling slots\<close>

text \<open>The 5-second floor-division slot of a timestamp, and a strategy state at time
  \<open>now\<close>, whose previous tick was at \<open>prev\<close>, holding the given samples for pair 0.\<close>

definition sample_slot :: "rat \<Rightarrow> int" where
  "sample_slot t = \<lfloor>t / ORDER_ADJUST_SAMPLE_INTERVAL\<rfloor>"

definition ex_sampling :: "rat \<Rightarrow> rat \<Rightarrow> rat list \<Rightarrow> rat list \<Rightarrow> strategy" where
  "ex_sampling prev now bids asks =
     (ex_strategy now)\<lparr>last_timestamp := prev,
                        suggested_price_samples := [0 \<mapsto> (bids, asks)]\<rparr>"

section \<open>Hedging orders and fill buckets\<close>

text \<open>The request for a MARKET order of the given side and amount on the taker leg, and
  a strategy state holding one maker buy fill and one maker sell fill of the given amounts
  for pair 0.\<close>

definition taker_market_order ::
  "config \<Rightarrow> cross_exchange_market_pair \<Rightarrow> bool \<Rightarrow> rat \<Rightarrow> order_request" where
  "taker_market_order cfg market_pair buy amount =
     \<lparr>req_is_buy = buy,
      req_market = market_name (market (taker market_pair)),
      req_trading_pair = trading_pair (taker market_pair),
      req_amount = amount, req_order_type = MARKET, req_price = None,
      req_expiration = (if \<not> active_order_canceling cfg
                        then Some (limit_order_min_expiration cfg) else None)\<rparr>"

definition ex_fill :: "rat \<Rightarrow> rat \<Rightarrow> order_fill_record" where
  "ex_fill amount p = (None, \<lparr>event_amount = amount, event_price = p\<rparr>)"

definition ex_filled :: "rat \<Rightarrow> rat \<Rightarrow> strategy" where
  "ex_filled bought sold =
     (ex_strategy 100)\<lparr>order_fill_buy_events := [0 \<mapsto> [ex_fill bought 100]],
                        order_fill_sell_events := [0 \<mapsto> [ex_fill sold 101]]\<rparr>"

section \<open>Observing one run of the supervisor\<close>

text \<open>The orders placed between two states, the anti-hysteresis timer as the supervisor
  reads it (\<open>get(market_pair, 0)\<close>), the request for a LIMIT order on the maker leg, and
  the market pair dictionary that \<open>__init__\<close> builds from a list of pairs.\<close>

definition new_orders :: "strategy \<Rightarrow> strategy \<Rightarrow> order_request list" where
  "new_orders st st' = drop (length (placed st)) (placed st')"

definition timer_of :: "strategy \<Rightarrow> nat \<Rightarrow> rat" where
  "timer_of st p = (case anti_hysteresis_timers st p of Some t \<Rightarrow> t | None \<Rightarrow> 0)"

definition maker_limit_order ::
  "config \<Rightarrow> cross_exchange_market_pair \<Rightarrow> bool \<Rightarrow> rat \<Rightarrow> rat \<Rightarrow> order_request" where
  "maker_limit_order cfg market_pair buy amount p =
     \<lparr>req_is_buy = buy,
      req_market = market_name (market (maker market_pair)),
      req_trading_pair = trading_pair (maker market_pair),
      req_amount = amount, req_order_type = LIMIT, req_price = Some p,
      req_expiration = (if \<not> active_order_canceling cfg
                        then Some (limit_order_min_expiration cfg) else None)\<rparr>"

definition ex_config_pairs :: "cross_exchange_market_pair list \<Rightarrow> config" where
  "ex_config_pairs pairs =
     (ex_config True)\<lparr>market_pairs :=
        map (\<lambda>market_pair. ((market_name (market (maker market_pair)),
                              trading_pair (maker market_pair)), market_pair)) pairs\<rparr>"


definition ex_env :: "(string \<times> limit_order) list \<Rightarrow> tick_env" where
  "ex_env orders =
     \<lparr>markets_ready = True, active_maker_orders = orders,
      has_in_flight_cancel = (\<lambda>order_id. False)\<rparr>"

text \<open>Two states that differ at most in the cancel requests sent, and two states that
  differ at most in the orders placed and tracked.\<close>

definition cancels_only :: "strategy \<Rightarrow> strategy \<Rightarrow> bool" where
  "cancels_only st st' \<longleftrightarrow> st'\<lparr>cancelled := cancelled st\<rparr> = st"

definition places_only :: "strategy \<Rightarrow> strategy \<Rightarrow> bool" where
  "places_only st st' \<longleftrightarrow>
     st'\<lparr>market_pair_tracker := market_pair_tracker st, placed := placed st\<rparr> = st"

section \<open>Theorems\<close>

subsection \<open>The profitability test\<close>



subsection \<open>The maker price\<close>


text \<open>On a smoothed top that lies on the tick grid the two wordings of the clamp agree.\<close>

lemma aligned_maker_price_on_grid:
  assumes bid: "\<exists>k::int. top_bid = of_int k * maker_price_tick market_pair top_bid"
    and ask: "\<exists>k::int. top_ask = of_int k * maker_price_tick market_pair top_ask"
    and ticks: "\<And>p. maker_price_tick market_pair p \<noteq> 0"
  shows "aligned_maker_price cfg market_pair is_bid top_bid top_ask taker_vwap
         = claimed_maker_price cfg market_pair is_bid top_bid top_ask taker_vwap"
proof -
  from bid obtain k where k: "top_bid = of_int k * maker_price_tick market_pair top_bid"
    by blast
  from ask obtain j where j: "top_ask = of_int j * maker_price_tick market_pair top_ask"
    by blast
  have "top_bid / maker_price_tick market_pair top_bid = of_int k"
    using ticks [of top_bid] k by (metis nonzero_mult_div_cancel_right)
  then have up: "ceil_to_tick (maker_price_tick market_pair top_bid) top_bid = top_bid"
    using k by (simp add: ceil_to_tick_def)
  have "top_ask / maker_price_tick market_pair top_ask = of_int j"
    using ticks [of top_ask] j by (metis nonzero_mult_div_cancel_right)
  then have down: "floor_to_tick (maker_price_tick market_pair top_ask) top_ask = top_ask"
    using j by (simp add: floor_to_tick_def)
  show ?thesis
    by (simp add: aligned_maker_price_def claimed_maker_price_def up down Let_def)
qed




subsection \<open>The sizer's fallback on an empty taker book\<close>

lemma size_with_vwap:
  assumes "c_get_adjusted_limit_order_size cfg market_pair = Inr user_order"
    and "ob_get_vwap_for_volume (order_book (taker market_pair)) (\<not> is_bid) user_order = Some v"
  shows "c_get_market_making_size cfg market_pair is_bid
         = size_for_taker_price cfg market_pair is_bid user_order v"
  using assms
  by (cases is_bid)
     (simp_all add: c_get_market_making_size_def size_for_taker_price_def Let_def
        split: sum.splits)

text \<open>
  Claim C7, as stated, fails in the bid-side branch: there the VWAP is asked for side
  \<open>False\<close> (the taker bids) and the fallback reads \<open>c_get_price(True)\<close>, the top ask. With an
  empty-book VWAP, a taker top bid of 50, a top ask of 100 and 1000 of quote on the maker,
  the size is \<open>1000 / 100 = 10\<close>, not the \<open>1000 / 50 = 20\<close> of the same-side top quote.
\<close>

theorem size_fallback_counterexample:
  "ob_get_vwap_for_volume
      (order_book (taker (ex_pair 0 100 101 None None 50 100 1000 True))) False 100 = None
   \<and> c_get_market_making_size ((ex_config True)\<lparr>order_amount := Some 100\<rparr>)
        (ex_pair 0 100 101 None None 50 100 1000 True) True = Inr 10
   \<and> size_for_taker_price ((ex_config True)\<lparr>order_amount := Some 100\<rparr>)
        (ex_pair 0 100 101 None None 50 100 1000 True) True 100
        (ob_get_price (order_book (taker (ex_pair 0 100 101 None None 50 100 1000 True))) False)
       = Inr 20
   \<and> c_get_market_making_size ((ex_config True)\<lparr>order_amount := Some 100\<rparr>)
        (ex_pair 0 100 101 None None 50 100 1000 True) True
       \<noteq> size_for_taker_price ((ex_config True)\<lparr>order_amount := Some 100\<rparr>)
        (ex_pair 0 100 101 None None 50 100 1000 True) True 100
        (ob_get_price (order_book (taker (ex_pair 0 100 101 None None 50 100 1000 True))) False)"
  by code_simp

text \<open>
  Claim C7, amended. In the size computation, when obtaining the taker VWAP for the adjusted
  order size raises a division-by-zero (empty taker book), the computation falls back to
  the taker book's top quote read with \<open>c_get_price(True)\<close>, the top ask, in both sizing
  branches: in the ask-side branch this is the side the VWAP was being computed on
  (\<open>True\<close>), in the bid-side branch it is the opposite of the VWAP's side (\<open>False\<close>).
\<close>

theorem size_fallback_top_ask:
  assumes "c_get_adjusted_limit_order_size cfg market_pair = Inr user_order"
    and "ob_get_vwap_for_volume (order_book (taker market_pair)) (\<not> is_bid) user_order = None"
  shows "c_get_market_making_size cfg market_pair is_bid
         = size_for_taker_price cfg market_pair is_bid user_order
             (ob_get_price (order_book (taker market_pair)) True)"
  using assms
  by (cases is_bid)
     (simp_all add: c_get_market_making_size_def size_for_taker_price_def Let_def
        split: sum.splits)

theorem size_fallback_witness:
  "c_get_adjusted_limit_order_size ((ex_config True)\<lparr>order_amount := Some 100\<rparr>)
      (ex_pair 0 100 101 None None 50 100 1000 True) = Inr 100
   \<and> ob_get_vwap_for_volume
        (order_book (taker (ex_pair 0 100 101 None None 50 100 1000 True))) (\<not> True) 100 = None
   \<and> c_get_market_making_size ((ex_config True)\<lparr>order_amount := Some 100\<rparr>)
        (ex_pair 0 100 101 None None 50 100 1000 True) True
       = size_for_taker_price ((ex_config True)\<lparr>order_amount := Some 100\<rparr>)
           (ex_pair 0 100 101 None None 50 100 1000 True) True 100
           (ob_get_price (order_book (taker (ex_pair 0 100 101 None None 50 100 1000 True))) True)
   \<and> ob_get_price (order_book (taker (ex_pair 0 100 101 None None 50 100 1000 True))) True = 100"
proof -
  let ?cfg = "(ex_config True)\<lparr>order_amount := Some 100\<rparr>"
  let ?mp = "ex_pair 0 100 101 None None 50 100 1000 True"
  have user: "c_get_adjusted_limit_order_size ?cfg ?mp = Inr 100"
    by code_simp
  have empty: "ob_get_vwap_for_volume (order_book (taker ?mp)) (\<not> True) 100 = None"
    by code_simp
  have top: "ob_get_price (order_book (taker ?mp)) True = 100"
    by code_simp
  from size_fallback_top_ask [OF user empty] user empty top
  show ?thesis by blast
qed

subsection \<open>The price sampler\<close>

lemma popleft_while_drop:
  "popleft_while d = drop (length d - ORDER_ADJUST_SAMPLE_WINDOW) d"
proof (induction d rule: popleft_while.induct)
  case (1 d)
  show ?case
  proof (cases "length d > ORDER_ADJUST_SAMPLE_WINDOW")
    case True
    then obtain x xs where d: "d = x # xs" by (cases d) auto
    from True d have gt: "length xs \<ge> ORDER_ADJUST_SAMPLE_WINDOW" by simp
    have "popleft_while d = popleft_while xs"
      using True d by (subst popleft_while.simps) simp
    also have "\<dots> = drop (length xs - ORDER_ADJUST_SAMPLE_WINDOW) xs"
      using 1 [OF True] d by simp
    also have "\<dots> = drop (length d - ORDER_ADJUST_SAMPLE_WINDOW) d"
      using gt d by (simp add: Suc_diff_le)
    finally show ?thesis .
  next
    case False
    then show ?thesis by (subst popleft_while.simps) simp
  qed
qed

lemma length_popleft_while: "length (popleft_while d) \<le> ORDER_ADJUST_SAMPLE_WINDOW"
  by (simp add: popleft_while_drop)

lemma take_sample_eq:
  "c_take_suggested_price_sample cfg market_pair st =
     (if sample_slot (last_timestamp st) < sample_slot (current_timestamp st)
      then st\<lparr>suggested_price_samples := (suggested_price_samples st)(pair_id market_pair \<mapsto>
              (popleft_while (fst (c_get_suggested_price_samples st market_pair)
                    @ [fst (c_get_top_bid_ask_from_price_samples cfg st market_pair)]),
               popleft_while (snd (c_get_suggested_price_samples st market_pair)
                    @ [snd (c_get_top_bid_ask_from_price_samples cfg st market_pair)])))\<rparr>
      else st)"
proof (cases "suggested_price_samples st (pair_id market_pair)")
  case None
  then show ?thesis
    by (simp add: c_take_suggested_price_sample_def sample_slot_def
      c_get_suggested_price_samples_def c_get_top_bid_ask_from_price_samples_def Let_def
      split: prod.splits)
next
  case (Some a)
  then show ?thesis
    by (simp add: c_take_suggested_price_sample_def sample_slot_def
      c_get_suggested_price_samples_def c_get_top_bid_ask_from_price_samples_def Let_def
      split: prod.splits)
qed

lemma samples_after_take:
  "c_get_suggested_price_samples (c_take_suggested_price_sample cfg market_pair st) q =
     (if sample_slot (last_timestamp st) < sample_slot (current_timestamp st)
         \<and> pair_id q = pair_id market_pair
      then (popleft_while (fst (c_get_suggested_price_samples st market_pair)
                    @ [fst (c_get_top_bid_ask_from_price_samples cfg st market_pair)]),
            popleft_while (snd (c_get_suggested_price_samples st market_pair)
                    @ [snd (c_get_top_bid_ask_from_price_samples cfg st market_pair)]))
      else c_get_suggested_price_samples st q)"
  by (simp add: take_sample_eq) (simp add: c_get_suggested_price_samples_def)

lemma sample_slot_mono: "s \<le> t \<Longrightarrow> sample_slot s \<le> sample_slot t"
  by (simp add: sample_slot_def ORDER_ADJUST_SAMPLE_INTERVAL_def floor_mono divide_right_mono)

text \<open>
  What sampling the smoothed top does to the window: the appended sample is at least every
  sample in the deque, it survives the eviction, and so the smoothed top bid that any later
  book gives with the new deque is never below the smoothed top bid of the sampling tick.
  Evicting old samples cannot lower it.
\<close>

lemma last_in_popleft_while: "x \<in> set (popleft_while (d @ [x]))"
proof -
  have "drop (length (d @ [x]) - ORDER_ADJUST_SAMPLE_WINDOW) (d @ [x]) \<noteq> []"
    by (simp add: ORDER_ADJUST_SAMPLE_WINDOW_def)
  then have "last (drop (length (d @ [x]) - ORDER_ADJUST_SAMPLE_WINDOW) (d @ [x])) = x"
    by (simp add: ORDER_ADJUST_SAMPLE_WINDOW_def)
  with \<open>drop (length (d @ [x]) - ORDER_ADJUST_SAMPLE_WINDOW) (d @ [x]) \<noteq> []\<close>
  show ?thesis
    unfolding popleft_while_drop by (metis last_in_set)
qed

lemma smoothed_top_bid:
  "fst (c_get_top_bid_ask_from_price_samples cfg st market_pair)
     = Max (set (fst (c_get_suggested_price_samples st market_pair)
                 @ [fst (c_get_top_bid_ask cfg market_pair)]))"
  by (simp add: c_get_top_bid_ask_from_price_samples_def split: prod.splits)

lemma smoothed_top_bid_never_forgets:
  assumes slot: "sample_slot (last_timestamp st) < sample_slot (current_timestamp st)"
    and same: "pair_id later_pair = pair_id market_pair"
  shows "fst (c_get_top_bid_ask_from_price_samples cfg st market_pair)
           \<le> fst (c_get_top_bid_ask_from_price_samples cfg'
                    (c_take_suggested_price_sample cfg market_pair st) later_pair)"
proof -
  let ?m = "fst (c_get_top_bid_ask_from_price_samples cfg st market_pair)"
  let ?st' = "c_take_suggested_price_sample cfg market_pair st"
  have "fst (c_get_suggested_price_samples ?st' later_pair)
          = popleft_while (fst (c_get_suggested_price_samples st market_pair) @ [?m])"
    using slot same by (simp add: samples_after_take)
  then have "?m \<in> set (fst (c_get_suggested_price_samples ?st' later_pair))"
    by (simp add: last_in_popleft_while)
  then have "?m \<le> Max (set (fst (c_get_suggested_price_samples ?st' later_pair)
                            @ [fst (c_get_top_bid_ask cfg' later_pair)]))"
    by (intro Max_ge) auto
  then show ?thesis
    by (simp only: smoothed_top_bid)
qed

text \<open>
  Claim C8 against the code. With the bid samples \<open>[100]\<close> and the ask samples \<open>[101]\<close>
  already stored and the maker book's top at bid 99, ask 102, a sampling tick appends 100
  and 101: the smoothed tops (the maximum of the stored bids and the current top bid, the
  minimum of the stored asks and the current top ask), not the current top of book.
\<close>

theorem sample_appends_smoothed_top:
  "c_get_top_bid_ask (ex_config True) (ex_pair 0 99 102 None None 50 100 1000 True) = (99, 102)
   \<and> c_get_suggested_price_samples (ex_sampling 4 5 [100] [101])
        (ex_pair 0 99 102 None None 50 100 1000 True) = ([100], [101])
   \<and> c_get_suggested_price_samples
        (c_take_suggested_price_sample (ex_config True)
           (ex_pair 0 99 102 None None 50 100 1000 True) (ex_sampling 4 5 [100] [101]))
        (ex_pair 0 99 102 None None 50 100 1000 True) = ([100, 100], [101, 101])"
  by code_simp

text \<open>
  Claim C9, as stated, fails in its last part: with ticks at 4, 9 and 10 seconds a sample
  is appended at 9 (slot 0 to slot 1) and again at 10 (slot 1 to slot 2), a gap of 1
  second.
\<close>

theorem sample_gap_counterexample:
  "c_get_suggested_price_samples
      (c_take_suggested_price_sample (ex_config True)
         (ex_pair 0 100 101 None None 50 100 1000 True) (ex_sampling 4 9 [] []))
      (ex_pair 0 100 101 None None 50 100 1000 True) = ([100], [101])
   \<and> c_get_suggested_price_samples
      (c_take_suggested_price_sample (ex_config True)
         (ex_pair 0 100 101 None None 50 100 1000 True) (ex_sampling 9 10 [100] [101]))
      (ex_pair 0 100 101 None None 50 100 1000 True) = ([100, 100], [101, 101])
   \<and> last_timestamp (ex_sampling 9 10 [100] [101]) = current_timestamp (ex_sampling 4 9 [] [])
   \<and> current_timestamp (ex_sampling 9 10 [100] [101])
        - current_timestamp (ex_sampling 4 9 [] []) < 5"
  by code_simp

text \<open>
  Claim C9, amended. For every pair, the bid and ask price-sample deques never exceed length
  12: a sampling call keeps a deque of at most 12 entries at most 12 long, and on an append
  the new deque is the last 12 entries of the old one followed by the new sample (the oldest
  entries are evicted). The state changes, so a sample is appended, only when the current
  timestamp's 5-second floor-division slot is strictly greater than the previous tick
  timestamp's slot; so consecutive appends fall in strictly increasing 5-second slots (at
  most one append per slot), while their distance in time may be less than 5 seconds.
\<close>

theorem price_samples_bounded_and_slotted:
  fixes cfg :: config and market_pair :: cross_exchange_market_pair
    and st :: strategy and st2 :: strategy
  defines "st' \<equiv> c_take_suggested_price_sample cfg market_pair st"
  defines "old \<equiv> c_get_suggested_price_samples st market_pair"
  defines "tops \<equiv> c_get_top_bid_ask_from_price_samples cfg st market_pair"
  shows "(length (fst (c_get_suggested_price_samples st q)) \<le> 12
            \<longrightarrow> length (fst (c_get_suggested_price_samples st' q)) \<le> 12)
       \<and> (length (snd (c_get_suggested_price_samples st q)) \<le> 12
            \<longrightarrow> length (snd (c_get_suggested_price_samples st' q)) \<le> 12)
       \<and> (st' \<noteq> st \<longrightarrow> sample_slot (last_timestamp st) < sample_slot (current_timestamp st))
       \<and> (sample_slot (last_timestamp st) < sample_slot (current_timestamp st) \<longrightarrow>
            c_get_suggested_price_samples st' market_pair
              = (drop (length (fst old @ [fst tops]) - 12) (fst old @ [fst tops]),
                 drop (length (snd old @ [snd tops]) - 12) (snd old @ [snd tops])))
       \<and> (st' \<noteq> st \<and> c_take_suggested_price_sample cfg2 market_pair2 st2 \<noteq> st2
            \<and> current_timestamp st \<le> last_timestamp st2
            \<longrightarrow> sample_slot (current_timestamp st) < sample_slot (current_timestamp st2))"
proof -
  have len: "\<And>d. length (popleft_while d) \<le> 12"
    using length_popleft_while by (simp add: ORDER_ADJUST_SAMPLE_WINDOW_def)
  have 1: "length (fst (c_get_suggested_price_samples st q)) \<le> 12
            \<longrightarrow> length (fst (c_get_suggested_price_samples st' q)) \<le> 12"
    unfolding st'_def by (simp add: samples_after_take len)
  have 2: "length (snd (c_get_suggested_price_samples st q)) \<le> 12
            \<longrightarrow> length (snd (c_get_suggested_price_samples st' q)) \<le> 12"
    unfolding st'_def by (simp add: samples_after_take len)
  have 3: "st' \<noteq> st \<longrightarrow> sample_slot (last_timestamp st) < sample_slot (current_timestamp st)"
    unfolding st'_def by (simp add: take_sample_eq)
  have 4: "sample_slot (last_timestamp st) < sample_slot (current_timestamp st) \<longrightarrow>
            c_get_suggested_price_samples st' market_pair
              = (drop (length (fst old @ [fst tops]) - 12) (fst old @ [fst tops]),
                 drop (length (snd old @ [snd tops]) - 12) (snd old @ [snd tops]))"
    unfolding st'_def old_def tops_def
    by (simp add: samples_after_take popleft_while_drop ORDER_ADJUST_SAMPLE_WINDOW_def)
  have 5: "st' \<noteq> st \<and> c_take_suggested_price_sample cfg2 market_pair2 st2 \<noteq> st2
            \<and> current_timestamp st \<le> last_timestamp st2
            \<longrightarrow> sample_slot (current_timestamp st) < sample_slot (current_timestamp st2)"
  proof (intro impI, elim conjE)
    assume a: "st' \<noteq> st" and b: "c_take_suggested_price_sample cfg2 market_pair2 st2 \<noteq> st2"
      and c: "current_timestamp st \<le> last_timestamp st2"
    from b have "sample_slot (last_timestamp st2) < sample_slot (current_timestamp st2)"
      by (simp add: take_sample_eq split: if_splits)
    moreover from c have "sample_slot (current_timestamp st) \<le> sample_slot (last_timestamp st2)"
      by (rule sample_slot_mono)
    ultimately show "sample_slot (current_timestamp st) < sample_slot (current_timestamp st2)"
      by linarith
  qed
  from 1 2 3 4 5 show ?thesis by blast
qed

theorem price_samples_witness:
  "length (fst (c_get_suggested_price_samples (ex_sampling 4 9 [] [])
             (ex_pair 0 100 101 None None 50 100 1000 True))) \<le> 12
   \<and> length (snd (c_get_suggested_price_samples (ex_sampling 4 9 [] [])
             (ex_pair 0 100 101 None None 50 100 1000 True))) \<le> 12
   \<and> current_timestamp (ex_sampling 4 9 [] []) \<le> last_timestamp (ex_sampling 9 10 [100] [101])
   \<and> length (fst (c_get_suggested_price_samples
         (c_take_suggested_price_sample (ex_config True)
            (ex_pair 0 100 101 None None 50 100 1000 True) (ex_sampling 4 9 [] []))
         (ex_pair 0 100 101 None None 50 100 1000 True))) \<le> 12
   \<and> length (snd (c_get_suggested_price_samples
         (c_take_suggested_price_sample (ex_config True)
            (ex_pair 0 100 101 None None 50 100 1000 True) (ex_sampling 4 9 [] []))
         (ex_pair 0 100 101 None None 50 100 1000 True))) \<le> 12
   \<and> sample_slot (last_timestamp (ex_sampling 4 9 [] []))
        < sample_slot (current_timestamp (ex_sampling 4 9 [] []))
   \<and> sample_slot (current_timestamp (ex_sampling 4 9 [] []))
        < sample_slot (current_timestamp (ex_sampling 9 10 [100] [101]))"
proof -
  let ?cfg = "ex_config True"
  let ?mp = "ex_pair 0 100 101 None None 50 100 1000 True"
  let ?st = "ex_sampling 4 9 [] []"
  let ?st2 = "ex_sampling 9 10 [100] [101]"
  have b: "length (fst (c_get_suggested_price_samples ?st ?mp)) \<le> 12"
    by code_simp
  have a: "length (snd (c_get_suggested_price_samples ?st ?mp)) \<le> 12"
    by code_simp
  have "c_get_suggested_price_samples (c_take_suggested_price_sample ?cfg ?mp ?st) ?mp
          \<noteq> c_get_suggested_price_samples ?st ?mp"
    by code_simp
  then have ch: "c_take_suggested_price_sample ?cfg ?mp ?st \<noteq> ?st"
    by auto
  have "c_get_suggested_price_samples (c_take_suggested_price_sample ?cfg ?mp ?st2) ?mp
          \<noteq> c_get_suggested_price_samples ?st2 ?mp"
    by code_simp
  then have ch2: "c_take_suggested_price_sample ?cfg ?mp ?st2 \<noteq> ?st2"
    by auto
  have le: "current_timestamp ?st \<le> last_timestamp ?st2"
    by code_simp
  from price_samples_bounded_and_slotted [of ?st ?mp ?cfg ?mp ?cfg ?mp ?st2] b a ch ch2 le
  show ?thesis by blast
qed

subsection \<open>The fill hedger\<close>

text \<open>\<open>c_check_and_hedge_orders\<close> drains the buy bucket, then the sell bucket, each when
  its aggregated quantity is positive; an exception of the first drain skips the second.\<close>

lemma hedge_orders_sequence:
  assumes "order_fill_buy_events st (pair_id market_pair) = Some buys"
    and "order_fill_sell_events st (pair_id market_pair) = Some sells"
  shows "c_check_and_hedge_orders cfg market_pair st =
           (case (if fill_quantity buys > 0 then hedge_buy_fills cfg market_pair buys st
                  else (Inr (), st)) of
              (Inl e, st1) \<Rightarrow> (Inl e, st1)
            | (Inr u, st1) \<Rightarrow>
                if fill_quantity sells > 0 then hedge_sell_fills cfg market_pair sells st1
                else (Inr (), st1))"
  using assms by (simp add: c_check_and_hedge_orders_def Let_def)

text \<open>
  Claim C2, as stated, fails: with maker buy fills of 5.0, a taker base balance of 2.0 and
  a balance factor of 0.995, the drain submits a taker sell order for
  \<open>quantize(min(5, 2 * 0.995)) = 1.99\<close>, not for \<open>quantize(5) = 5\<close>, and empties the bucket.
\<close>

theorem hedge_counterexample:
  "order_fill_buy_events (ex_filled 5 0) 0 = Some [ex_fill 5 100]
   \<and> fill_quantity [ex_fill 5 100] = 5
   \<and> quantize_order_amount
        (market (taker (ex_pair 0 100 101 (Some 99) (Some 102) 99 102 2 True)))
        (trading_pair (taker (ex_pair 0 100 101 (Some 99) (Some 102) 99 102 2 True))) 5 = 5
   \<and> placed (snd (c_check_and_hedge_orders (ex_config True)
        (ex_pair 0 100 101 (Some 99) (Some 102) 99 102 2 True) (ex_filled 5 0)))
       = [taker_market_order (ex_config True)
            (ex_pair 0 100 101 (Some 99) (Some 102) 99 102 2 True) False (199 / 100)]
   \<and> order_fill_buy_events (snd (c_check_and_hedge_orders (ex_config True)
        (ex_pair 0 100 101 (Some 99) (Some 102) 99 102 2 True) (ex_filled 5 0))) 0 = None"
  by code_simp

text \<open>
  Claim C2, amended. For every invocation of the hedge drain on a pair's buy (respectively
  sell) fill bucket with positive aggregated fill quantity \<open>q\<close>, let the hedge amount be
  \<open>min(q, taker base available * taker balance factor)\<close> (respectively
  \<open>min(q, taker quote available / price for volume q * taker balance factor)\<close>, the price
  being non-zero) quantized to the taker size tick. Either the hedge amount is positive and
  the venue adapter accepts a taker market sell (respectively buy) order of that amount:
  then the order is submitted and the whole bucket is deleted; or no taker order is
  submitted and the state, the bucket with it, is left unchanged for retry (with the
  adapter's exception propagating when it rejected the order). The bucket is deleted only
  after the order submission has returned, and never in part; the hedge amount can be
  smaller than \<open>q\<close>.
\<close>

theorem hedge_drain_all_or_nothing:
  fixes cfg :: config and market_pair :: cross_exchange_market_pair and st :: strategy
    and buys :: "order_fill_record list" and sells :: "order_fill_record list"
  defines "taker_market \<equiv> market (taker market_pair)"
  defines "quantize \<equiv> quantize_order_amount taker_market (trading_pair (taker market_pair))"
  defines "sell_amount \<equiv>
     quantize (min (fill_quantity buys)
                 (get_available_balance taker_market (base_asset (taker market_pair))
                    * order_size_taker_balance_factor cfg))"
  defines "buy_amount \<equiv>
     quantize (min (fill_quantity sells)
                 (get_available_balance taker_market (quote_asset (taker market_pair))
                    / ob_get_price_for_volume (order_book (taker market_pair)) True
                        (fill_quantity sells)
                    * order_size_taker_balance_factor cfg))"
  shows "(order_fill_buy_events st (pair_id market_pair) = Some buys \<and> fill_quantity buys > 0 \<longrightarrow>
           hedge_buy_fills cfg market_pair buys st =
             (if sell_amount > 0 then
                (case place_order taker_market
                        (taker_market_order cfg market_pair False sell_amount) of
                   Some order_id \<Rightarrow>
                     (Inr (),
                      st\<lparr>order_fill_buy_events :=
                            (order_fill_buy_events st)(pair_id market_pair := None),
                         market_pair_tracker :=
                            (market_pair_tracker st)(order_id \<mapsto> pair_id market_pair),
                         placed := placed st
                            @ [taker_market_order cfg market_pair False sell_amount]\<rparr>)
                 | None \<Rightarrow> (Inl VenueError, st))
              else (Inr (), st)))
       \<and> (order_fill_sell_events st (pair_id market_pair) = Some sells \<and> fill_quantity sells > 0
            \<and> ob_get_price_for_volume (order_book (taker market_pair)) True
                  (fill_quantity sells) \<noteq> 0 \<longrightarrow>
           hedge_sell_fills cfg market_pair sells st =
             (if buy_amount > 0 then
                (case place_order taker_market
                        (taker_market_order cfg market_pair True buy_amount) of
                   Some order_id \<Rightarrow>
                     (Inr (),
                      st\<lparr>order_fill_sell_events :=
                            (order_fill_sell_events st)(pair_id market_pair := None),
                         market_pair_tracker :=
                            (market_pair_tracker st)(order_id \<mapsto> pair_id market_pair),
                         placed := placed st
                            @ [taker_market_order cfg market_pair True buy_amount]\<rparr>)
                 | None \<Rightarrow> (Inl VenueError, st))
              else (Inr (), st)))"
  unfolding taker_market_def quantize_def sell_amount_def buy_amount_def
  by (auto simp: hedge_buy_fills_def hedge_sell_fills_def c_sell_with_specific_market_def
      c_buy_with_specific_market_def submit_order_def taker_market_order_def py_div_def Let_def
      split: option.splits)

theorem hedge_drain_witness:
  "order_fill_buy_events (ex_filled 5 3) 0 = Some [ex_fill 5 100]
   \<and> fill_quantity [ex_fill 5 100] > 0
   \<and> order_fill_sell_events (ex_filled 5 3) 0 = Some [ex_fill 3 101]
   \<and> fill_quantity [ex_fill 3 101] > 0
   \<and> ob_get_price_for_volume
        (order_book (taker (ex_pair 0 100 101 (Some 99) (Some 102) 99 102 2 True))) True
        (fill_quantity [ex_fill 3 101]) \<noteq> 0
   \<and> placed (snd (hedge_buy_fills (ex_config True)
        (ex_pair 0 100 101 (Some 99) (Some 102) 99 102 2 True) [ex_fill 5 100] (ex_filled 5 3)))
       = [taker_market_order (ex_config True)
            (ex_pair 0 100 101 (Some 99) (Some 102) 99 102 2 True) False (199 / 100)]
   \<and> order_fill_buy_events (snd (hedge_buy_fills (ex_config True)
        (ex_pair 0 100 101 (Some 99) (Some 102) 99 102 2 True) [ex_fill 5 100] (ex_filled 5 3)))
        0 = None
   \<and> placed (snd (hedge_sell_fills (ex_config True)
        (ex_pair 0 100 101 (Some 99) (Some 102) 99 102 2 False) [ex_fill 3 101] (ex_filled 5 3)))
       = []
   \<and> order_fill_sell_events (snd (hedge_sell_fills (ex_config True)
        (ex_pair 0 100 101 (Some 99) (Some 102) 99 102 2 False) [ex_fill 3 101] (ex_filled 5 3)))
        0 = Some [ex_fill 3 101]"
proof -
  let ?cfg = "ex_config True"
  let ?mp = "ex_pair 0 100 101 (Some 99) (Some 102) 99 102 2 True"
  let ?rej = "ex_pair 0 100 101 (Some 99) (Some 102) 99 102 2 False"
  let ?st = "ex_filled 5 3"
  have b: "order_fill_buy_events ?st (pair_id ?mp) = Some [ex_fill 5 100]
           \<and> fill_quantity [ex_fill 5 100] > 0"
    by code_simp
  have s: "order_fill_sell_events ?st (pair_id ?rej) = Some [ex_fill 3 101]
           \<and> fill_quantity [ex_fill 3 101] > 0
           \<and> ob_get_price_for_volume (order_book (taker ?rej)) True
                (fill_quantity [ex_fill 3 101]) \<noteq> 0"
    by code_simp
  note buy = hedge_drain_all_or_nothing
    [of ?st ?mp "[ex_fill 5 100]" ?cfg "[ex_fill 3 101]", THEN conjunct1, THEN mp, OF b]
  note sell = hedge_drain_all_or_nothing
    [of ?st ?rej "[ex_fill 5 100]" ?cfg "[ex_fill 3 101]", THEN conjunct2, THEN mp, OF s]
  have 1: "placed (snd (hedge_buy_fills ?cfg ?mp [ex_fill 5 100] ?st))
             = [taker_market_order ?cfg ?mp False (199 / 100)]"
    by (subst buy) code_simp
  have 2: "order_fill_buy_events (snd (hedge_buy_fills ?cfg ?mp [ex_fill 5 100] ?st)) 0 = None"
    by (subst buy) code_simp
  have 3: "placed (snd (hedge_sell_fills ?cfg ?rej [ex_fill 3 101] ?st)) = []"
    by (subst sell) code_simp
  have 4: "order_fill_sell_events (snd (hedge_sell_fills ?cfg ?rej [ex_fill 3 101] ?st)) 0
             = Some [ex_fill 3 101]"
    by (subst sell) code_simp
  have b': "order_fill_buy_events ?st 0 = Some [ex_fill 5 100]"
    by code_simp
  have s': "order_fill_sell_events ?st 0 = Some [ex_fill 3 101]"
    by code_simp
  have p: "ob_get_price_for_volume (order_book (taker ?mp)) True
             (fill_quantity [ex_fill 3 101]) \<noteq> 0"
    by code_simp
  from b b' s s' p 1 2 3 4 show ?thesis by blast
qed

subsection \<open>The order supervisor: what one run changes\<close>

lemma cancels_only_refl: "cancels_only st st"
  by (simp add: cancels_only_def)

lemma cancels_only_cancel: "cancels_only st (c_cancel_order mp oid st)"
  by (simp add: cancels_only_def c_cancel_order_def)

lemma cancels_only_trans: "cancels_only a b \<Longrightarrow> cancels_only b c \<Longrightarrow> cancels_only a c"
  unfolding cancels_only_def by (cases a; cases b; cases c) simp

lemma cancels_only_fields:
  assumes "cancels_only st st'"
  shows "placed st' = placed st" and "anti_hysteresis_timers st' = anti_hysteresis_timers st"
    and "suggested_price_samples st' = suggested_price_samples st"
    and "current_timestamp st' = current_timestamp st"
    and "tracked_taker_orders st' = tracked_taker_orders st"
    and "market_pair_tracker st' = market_pair_tracker st"
    and "last_timestamp st' = last_timestamp st"
  using assms unfolding cancels_only_def by (cases st; cases st'; simp)+

lemma still_profitable_cancels_only:
  "c_check_if_still_profitable cfg mp ord h st = (r, st') \<Longrightarrow> cancels_only st st'"
  by (auto simp: c_check_if_still_profitable_def Let_def cancels_only_refl cancels_only_cancel
      split: option.splits if_splits)

lemma sufficient_balance_cancels_only:
  "c_check_if_sufficient_balance cfg mp ord st = (r, st') \<Longrightarrow> cancels_only st st'"
  by (auto simp: c_check_if_sufficient_balance_def Let_def cancels_only_refl cancels_only_cancel
      split: sum.splits if_splits)

lemma price_has_drifted_cancels_only:
  "c_check_if_price_has_drifted cfg mp ord st = (r, st') \<Longrightarrow> cancels_only st st'"
  by (auto simp: c_check_if_price_has_drifted_def Let_def cancels_only_refl cancels_only_cancel
      split: sum.splits option.splits if_splits)

lemma check_active_order_cancels_only:
  assumes "check_active_order cfg mp timer ord st = (r, st')"
  shows "cancels_only st st'"
  using assms
  unfolding check_active_order_def Let_def
  by (auto split: prod.splits bool.splits sum.splits if_splits
      dest!: still_profitable_cancels_only sufficient_balance_cancels_only
        price_has_drifted_cancels_only
      intro: cancels_only_trans)

lemma check_active_order_adjust:
  assumes "check_active_order cfg mp timer ord st = (Inr True, st')"
  shows "current_timestamp st > timer"
  using assms
  unfolding check_active_order_def Let_def
  by (auto split: prod.splits bool.splits sum.splits if_splits
      dest!: still_profitable_cancels_only sufficient_balance_cancels_only
      simp: cancels_only_fields)

lemma check_active_orders_result:
  assumes "check_active_orders cfg mp timer os (hb, ha, na) st = (r, st')"
  shows "cancels_only st st'
       \<and> (\<forall>hb' ha' na'. r = Inr (hb', ha', na') \<longrightarrow>
             (hb' \<longleftrightarrow> hb \<or> (\<exists>ord \<in> set os. is_buy ord))
           \<and> (ha' \<longleftrightarrow> ha \<or> (\<exists>ord \<in> set os. \<not> is_buy ord))
           \<and> (na' \<longrightarrow> na \<or> current_timestamp st > timer))"
  using assms
proof (induction os arbitrary: hb ha na st)
  case Nil
  then show ?case by (auto simp: cancels_only_refl)
next
  case (Cons ord os)
  show ?case
  proof (cases "check_active_order cfg mp timer ord st")
    case (Pair r1 st1)
    note co = check_active_order_cancels_only [OF Pair]
    show ?thesis
    proof (cases r1)
      case (Inl e)
      with Cons.prems Pair co show ?thesis by (auto simp: Let_def)
    next
      case (Inr adjust)
      with Cons.prems Pair
      have rest: "check_active_orders cfg mp timer os
                    (if is_buy ord then True else hb, if is_buy ord then ha else True,
                     if adjust then True else na) st1 = (r, st')"
        by (simp add: Let_def)
      from Cons.IH [OF rest] have ih: "cancels_only st1 st'
         \<and> (\<forall>hb' ha' na'. r = Inr (hb', ha', na') \<longrightarrow>
             (hb' \<longleftrightarrow> (if is_buy ord then True else hb) \<or> (\<exists>ord \<in> set os. is_buy ord))
           \<and> (ha' \<longleftrightarrow> (if is_buy ord then ha else True) \<or> (\<exists>ord \<in> set os. \<not> is_buy ord))
           \<and> (na' \<longrightarrow> (if adjust then True else na) \<or> current_timestamp st1 > timer))" .
      have adj: "current_timestamp st > timer" if "adjust"
      proof -
        from that Pair Inr have "check_active_order cfg mp timer ord st = (Inr True, st1)"
          by simp
        then show ?thesis by (rule check_active_order_adjust)
      qed
      have ts: "current_timestamp st1 = current_timestamp st"
        using co by (simp add: cancels_only_fields)
      from ih co adj ts show ?thesis
        by (auto intro: cancels_only_trans split: if_splits)
    qed
  qed
qed

lemma places_only_refl: "places_only st st"
  by (simp add: places_only_def)

lemma places_only_trans: "places_only a b \<Longrightarrow> places_only b c \<Longrightarrow> places_only a c"
  unfolding places_only_def by (cases a; cases b; cases c) simp

lemma places_only_fields:
  assumes "places_only st st'"
  shows "cancelled st' = cancelled st" and "anti_hysteresis_timers st' = anti_hysteresis_timers st"
    and "suggested_price_samples st' = suggested_price_samples st"
    and "current_timestamp st' = current_timestamp st"
    and "tracked_taker_orders st' = tracked_taker_orders st"
    and "last_timestamp st' = last_timestamp st"
  using assms unfolding places_only_def by (cases st; cases st'; simp)+

lemma submit_order_result:
  assumes "submit_order cfg mp buy amount otype oprice st = (r, st')"
  shows "places_only st st'
       \<and> (case r of Inl e \<Rightarrow> e = VenueError \<and> placed st' = placed st
           | Inr oid \<Rightarrow> placed st' = placed st @
               [\<lparr>req_is_buy = buy,
                 req_market = market_name (market (if otype = LIMIT then maker mp else taker mp)),
                 req_trading_pair = trading_pair (if otype = LIMIT then maker mp else taker mp),
                 req_amount = amount, req_order_type = otype, req_price = oprice,
                 req_expiration = (if \<not> active_order_canceling cfg
                                   then Some (limit_order_min_expiration cfg) else None)\<rparr>])"
  using assms
  by (auto simp: submit_order_def Let_def places_only_def split: option.splits)

lemma market_making_price_samples:
  "suggested_price_samples st' = suggested_price_samples st \<Longrightarrow>
   c_get_market_making_price cfg st' mp is_bid sz = c_get_market_making_price cfg st mp is_bid sz"
  by (simp add: c_get_market_making_price_def c_get_top_bid_ask_from_price_samples_def
      c_get_suggested_price_samples_def)

lemma create_new_bid_result:
  assumes "create_new_bid cfg mp st = (r, st')"
  shows "places_only st st'
       \<and> (placed st' = placed st \<or>
           (\<exists>amount p. c_get_market_making_size cfg mp True = Inr amount \<and> amount > 0
              \<and> c_get_market_making_price cfg st mp True amount = Inr (Some p)
              \<and> r = Inr ()
              \<and> placed st' = placed st @ [maker_limit_order cfg mp True amount p]))"
  using assms
  unfolding create_new_bid_def c_buy_with_specific_market_def
  by (auto simp: places_only_refl maker_limit_order_def
      split: sum.splits option.splits if_splits prod.splits
      dest!: submit_order_result)

lemma create_new_ask_result:
  assumes "create_new_ask cfg mp st = (r, st')"
  shows "places_only st st'
       \<and> (placed st' = placed st \<or>
           (\<exists>amount p. c_get_market_making_size cfg mp False = Inr amount \<and> amount > 0
              \<and> c_get_market_making_price cfg st mp False amount = Inr (Some p)
              \<and> r = Inr ()
              \<and> placed st' = placed st @ [maker_limit_order cfg mp False amount p]))"
  using assms
  unfolding create_new_ask_def c_sell_with_specific_market_def
  by (auto simp: places_only_refl maker_limit_order_def
      split: sum.splits option.splits if_splits prod.splits
      dest!: submit_order_result)

lemma create_new_orders_result:
  assumes "c_check_and_create_new_orders cfg mp hb ha st = (r, st')"
  shows "places_only st st'
       \<and> (\<exists>bids asks. placed st' = placed st @ bids @ asks
            \<and> (bids = [] \<or> (\<not> hb \<and> (\<exists>amount p.
                   c_get_market_making_size cfg mp True = Inr amount \<and> amount > 0
                 \<and> c_get_market_making_price cfg st mp True amount = Inr (Some p)
                 \<and> bids = [maker_limit_order cfg mp True amount p])))
            \<and> (asks = [] \<or> (\<not> ha \<and> (\<exists>amount p.
                   c_get_market_making_size cfg mp False = Inr amount \<and> amount > 0
                 \<and> c_get_market_making_price cfg st mp False amount = Inr (Some p)
                 \<and> asks = [maker_limit_order cfg mp False amount p]))))"
proof -
  obtain r1 st1 where bid:
    "(if \<not> hb then create_new_bid cfg mp st else (Inr (), st)) = (r1, st1)"
    by (cases "if \<not> hb then create_new_bid cfg mp st else (Inr (), st)") auto
  obtain bids where b: "places_only st st1" "placed st1 = placed st @ bids"
    "bids = [] \<or> (\<not> hb \<and> (\<exists>amount p.
         c_get_market_making_size cfg mp True = Inr amount \<and> amount > 0
       \<and> c_get_market_making_price cfg st mp True amount = Inr (Some p)
       \<and> bids = [maker_limit_order cfg mp True amount p]))"
  proof (cases hb)
    case True
    with bid have "st1 = st" by simp
    then show ?thesis using that [of "[]"] by (simp add: places_only_refl)
  next
    case False
    with bid have "create_new_bid cfg mp st = (r1, st1)" by simp
    from create_new_bid_result [OF this] False show ?thesis
      using that by (metis append_Nil2)
  qed
  obtain r2 st2 where ask:
    "(if \<not> ha then create_new_ask cfg mp st1 else (Inr (), st1)) = (r2, st2)"
    by (cases "if \<not> ha then create_new_ask cfg mp st1 else (Inr (), st1)") auto
  have samples: "suggested_price_samples st1 = suggested_price_samples st"
    using b(1) by (simp add: places_only_fields)
  obtain asks where a: "places_only st1 st2" "placed st2 = placed st1 @ asks"
    "asks = [] \<or> (\<not> ha \<and> (\<exists>amount p.
         c_get_market_making_size cfg mp False = Inr amount \<and> amount > 0
       \<and> c_get_market_making_price cfg st mp False amount = Inr (Some p)
       \<and> asks = [maker_limit_order cfg mp False amount p]))"
  proof (cases ha)
    case True
    with ask have "st2 = st1" by simp
    then show ?thesis using that [of "[]"] by (simp add: places_only_refl)
  next
    case False
    with ask have "create_new_ask cfg mp st1 = (r2, st2)" by simp
    from create_new_ask_result [OF this] False show ?thesis
      using that market_making_price_samples [OF samples] by (metis append_Nil2)
  qed
  show ?thesis
  proof (cases r1)
    case (Inl e)
    with assms bid have "st' = st1" by (simp add: c_check_and_create_new_orders_def)
    with b show ?thesis by (intro conjI exI [of _ bids] exI [of _ "[]"]) auto
  next
    case (Inr u)
    with assms bid ask have "st' = st2" by (simp add: c_check_and_create_new_orders_def)
    with a b show ?thesis
      by (intro conjI exI [of _ bids] exI [of _ asks]) (auto intro: places_only_trans)
  qed
qed

lemma price_none_of_vwap_none:
  assumes "ob_get_vwap_for_volume (order_book (taker mp)) (\<not> is_bid) sz = None"
  shows "c_get_market_making_price cfg st mp is_bid sz \<noteq> Inr (Some p)"
  using assms
  by (cases is_bid)
     (simp_all add: c_get_market_making_price_def Let_def split: prod.splits sum.splits)

lemma hedging_none_iff:
  "c_calculate_effective_hedging_price cfg mp is_bid sz = None
     \<longleftrightarrow> ob_get_vwap_for_volume (order_book (taker mp)) (\<not> is_bid) sz = None"
  by (cases is_bid)
     (simp_all add: c_calculate_effective_hedging_price_def Let_def split: option.splits)

lemma price_some_hedging_some:
  assumes "c_get_market_making_price cfg st mp is_bid sz = Inr (Some p)"
  shows "c_calculate_effective_hedging_price cfg mp is_bid sz \<noteq> None"
  using assms price_none_of_vwap_none hedging_none_iff by blast

lemma create_new_bid_places:
  assumes run: "create_new_bid cfg mp st = (Inr (), st')"
    and sz: "c_get_market_making_size cfg mp True = Inr amount" and pos: "amount > 0"
    and pr: "c_get_market_making_price cfg st mp True amount = Inr (Some p)"
  shows "placed st' = placed st @ [maker_limit_order cfg mp True amount p]"
proof -
  obtain h where h: "c_calculate_effective_hedging_price cfg mp True amount = Some h"
    using price_some_hedging_some [OF pr] by auto
  from run sz pos pr h
  have "\<exists>oid. c_buy_with_specific_market cfg mp amount LIMIT (Some p) st = (Inr oid, st')"
    by (simp add: create_new_bid_def split: prod.splits sum.splits)
  then obtain oid where "submit_order cfg mp True amount LIMIT (Some p) st = (Inr oid, st')"
    by (auto simp: c_buy_with_specific_market_def)
  from submit_order_result [OF this] show ?thesis
    by (simp add: maker_limit_order_def)
qed

lemma create_new_ask_places:
  assumes run: "create_new_ask cfg mp st = (Inr (), st')"
    and sz: "c_get_market_making_size cfg mp False = Inr amount" and pos: "amount > 0"
    and pr: "c_get_market_making_price cfg st mp False amount = Inr (Some p)"
  shows "placed st' = placed st @ [maker_limit_order cfg mp False amount p]"
proof -
  obtain h where h: "c_calculate_effective_hedging_price cfg mp False amount = Some h"
    using price_some_hedging_some [OF pr] by auto
  from run sz pos pr h
  have "\<exists>oid. c_sell_with_specific_market cfg mp amount LIMIT (Some p) st = (Inr oid, st')"
    by (simp add: create_new_ask_def split: prod.splits sum.splits)
  then obtain oid where "submit_order cfg mp False amount LIMIT (Some p) st = (Inr oid, st')"
    by (auto simp: c_sell_with_specific_market_def)
  from submit_order_result [OF this] show ?thesis
    by (simp add: maker_limit_order_def)
qed

lemma create_new_orders_places:
  assumes run: "c_check_and_create_new_orders cfg mp hb ha st = (Inr (), st')"
    and side: "if buy then \<not> hb else \<not> ha"
    and sz: "c_get_market_making_size cfg mp buy = Inr amount" and pos: "amount > 0"
    and pr: "c_get_market_making_price cfg st mp buy amount = Inr (Some p)"
  shows "maker_limit_order cfg mp buy amount p \<in> set (new_orders st st')"
proof -
  obtain r1 st1 where bid:
    "(if \<not> hb then create_new_bid cfg mp st else (Inr (), st)) = (r1, st1)"
    by (cases "if \<not> hb then create_new_bid cfg mp st else (Inr (), st)") auto
  with run have r1: "r1 = Inr ()"
    by (cases r1) (auto simp: c_check_and_create_new_orders_def)
  with run bid have ask: "(if \<not> ha then create_new_ask cfg mp st1 else (Inr (), st1)) = (Inr (), st')"
    by (simp add: c_check_and_create_new_orders_def)
  have st1: "places_only st st1 \<and> (\<exists>bids. placed st1 = placed st @ bids)"
  proof (cases hb)
    case True
    with bid show ?thesis by (auto simp: places_only_refl)
  next
    case False
    with bid have "create_new_bid cfg mp st = (r1, st1)" by simp
    from create_new_bid_result [OF this] show ?thesis by auto
  qed
  then obtain bids where bids: "placed st1 = placed st @ bids" by blast
  have st': "\<exists>asks. placed st' = placed st1 @ asks"
  proof (cases ha)
    case True
    with ask show ?thesis by auto
  next
    case False
    with ask have "create_new_ask cfg mp st1 = (Inr (), st')" by simp
    from create_new_ask_result [OF this] show ?thesis by auto
  qed
  then obtain asks where asks: "placed st' = placed st1 @ asks" by blast
  show ?thesis
  proof (cases buy)
    case True
    with side bid r1 have "create_new_bid cfg mp st = (Inr (), st1)" by simp
    from create_new_bid_places [OF this] sz pos pr True
    have "placed st1 = placed st @ [maker_limit_order cfg mp buy amount p]" by simp
    with asks show ?thesis by (simp add: new_orders_def)
  next
    case False
    with side ask have run_ask: "create_new_ask cfg mp st1 = (Inr (), st')" by simp
    have "suggested_price_samples st1 = suggested_price_samples st"
      using st1 by (simp add: places_only_fields)
    from market_making_price_samples [OF this] pr False
    have "c_get_market_making_price cfg st1 mp False amount = Inr (Some p)"
      by simp
    from create_new_ask_places [OF run_ask _ pos this] sz False
    have "placed st' = placed st1 @ [maker_limit_order cfg mp buy amount p]" by simp
    with bids show ?thesis by (simp add: new_orders_def)
  qed
qed

lemma process_market_pair_unfold:
  assumes run: "c_process_market_pair cfg mp active_orders st = (r, st')"
  obtains (raised) e where
      "check_active_orders cfg mp (timer_of st (pair_id mp)) active_orders
         (False, False, False) st = (Inl e, st')" "r = Inl e"
  | (checked) hb ha na st1 st2 where
      "check_active_orders cfg mp (timer_of st (pair_id mp)) active_orders
         (False, False, False) st = (Inr (hb, ha, na), st1)"
      "st2 = (if na then st1\<lparr>anti_hysteresis_timers :=
                (anti_hysteresis_timers st1)(pair_id mp \<mapsto>
                   current_timestamp st1 + anti_hysteresis_duration cfg)\<rparr> else st1)"
      "(((hb \<and> ha) \<or> tracked_taker_orders st (pair_id mp) \<notin> {None, Some []})
           \<and> r = Inr () \<and> st' = st2)
       \<or> (\<not> (hb \<and> ha) \<and> tracked_taker_orders st (pair_id mp) \<in> {None, Some []}
           \<and> c_check_and_create_new_orders cfg mp hb ha st2 = (r, st'))"
proof (cases "check_active_orders cfg mp (timer_of st (pair_id mp)) active_orders
         (False, False, False) st")
  case (Pair r0 st1)
  show ?thesis
  proof (cases r0)
    case (Inl e)
    with Pair run have "r = Inl e" "st' = st1"
      by (simp_all add: c_process_market_pair_def timer_of_def Let_def)
    with Pair Inl raised show ?thesis by simp
  next
    case (Inr flags)
    obtain hb ha na where flags: "flags = (hb, ha, na)" by (cases flags) auto
    let ?st2 = "(if na then st1\<lparr>anti_hysteresis_timers :=
                (anti_hysteresis_timers st1)(pair_id mp \<mapsto>
                   current_timestamp st1 + anti_hysteresis_duration cfg)\<rparr> else st1)"
    from run Pair Inr flags
    have "(((hb \<and> ha) \<or> tracked_taker_orders st (pair_id mp) \<notin> {None, Some []})
           \<and> r = Inr () \<and> st' = ?st2)
       \<or> (\<not> (hb \<and> ha) \<and> tracked_taker_orders st (pair_id mp) \<in> {None, Some []}
           \<and> c_check_and_create_new_orders cfg mp hb ha ?st2 = (r, st'))"
      by (cases "tracked_taker_orders st (pair_id mp)")
         (auto simp: c_process_market_pair_def timer_of_def Let_def split: if_splits)
    with Pair Inr flags checked show ?thesis by blast
  qed
qed

lemma process_market_pair_result:
  assumes run: "c_process_market_pair cfg mp active_orders st = (r, st')"
  shows "current_timestamp st' = current_timestamp st
       \<and> suggested_price_samples st' = suggested_price_samples st
       \<and> (anti_hysteresis_timers st' = anti_hysteresis_timers st
            \<or> (anti_hysteresis_timers st' =
                  (anti_hysteresis_timers st)(pair_id mp \<mapsto>
                     current_timestamp st + anti_hysteresis_duration cfg)
                \<and> current_timestamp st > timer_of st (pair_id mp)))
       \<and> (\<exists>bids asks. placed st' = placed st @ bids @ asks
            \<and> (bids = [] \<or> ((\<forall>ord \<in> set active_orders. \<not> is_buy ord) \<and> (\<exists>amount p.
                   c_get_market_making_size cfg mp True = Inr amount \<and> amount > 0
                 \<and> c_get_market_making_price cfg st mp True amount = Inr (Some p)
                 \<and> bids = [maker_limit_order cfg mp True amount p])))
            \<and> (asks = [] \<or> ((\<forall>ord \<in> set active_orders. is_buy ord) \<and> (\<exists>amount p.
                   c_get_market_making_size cfg mp False = Inr amount \<and> amount > 0
                 \<and> c_get_market_making_price cfg st mp False amount = Inr (Some p)
                 \<and> asks = [maker_limit_order cfg mp False amount p]))))"
  using run
proof (cases rule: process_market_pair_unfold)
  case (raised e)
  from check_active_orders_result [OF raised(1)] have "cancels_only st st'" by simp
  then show ?thesis
    by (intro conjI exI [of _ "[]"]) (simp_all add: cancels_only_fields)
next
  case (checked hb ha na st1 st2)
  from check_active_orders_result [OF checked(1)]
  have co: "cancels_only st st1"
    and hb: "hb \<longleftrightarrow> (\<exists>ord \<in> set active_orders. is_buy ord)"
    and ha: "ha \<longleftrightarrow> (\<exists>ord \<in> set active_orders. \<not> is_buy ord)"
    and na: "na \<longrightarrow> current_timestamp st > timer_of st (pair_id mp)"
    by simp_all
  note f1 = cancels_only_fields [OF co]
  have ts2: "current_timestamp st2 = current_timestamp st"
    and sm2: "suggested_price_samples st2 = suggested_price_samples st"
    and pl2: "placed st2 = placed st"
    using checked(2) f1 by (simp_all split: if_splits)
  have tm2: "anti_hysteresis_timers st2 = anti_hysteresis_timers st
            \<or> (anti_hysteresis_timers st2 =
                  (anti_hysteresis_timers st)(pair_id mp \<mapsto>
                     current_timestamp st + anti_hysteresis_duration cfg)
                \<and> current_timestamp st > timer_of st (pair_id mp))"
    using checked(2) f1 na by (cases na) simp_all
  from checked(3)
  have "st' = st2 \<or> c_check_and_create_new_orders cfg mp hb ha st2 = (r, st')"
    by blast
  then show ?thesis
  proof
    assume "st' = st2"
    with ts2 sm2 pl2 tm2 show ?thesis
      by (intro conjI exI [of _ "[]"]) simp_all
  next
    assume create: "c_check_and_create_new_orders cfg mp hb ha st2 = (r, st')"
    from create_new_orders_result [OF create]
    obtain bids asks where po: "places_only st2 st'"
      and pl: "placed st' = placed st2 @ bids @ asks"
      and b: "bids = [] \<or> (\<not> hb \<and> (\<exists>amount p.
                   c_get_market_making_size cfg mp True = Inr amount \<and> amount > 0
                 \<and> c_get_market_making_price cfg st2 mp True amount = Inr (Some p)
                 \<and> bids = [maker_limit_order cfg mp True amount p]))"
      and a: "asks = [] \<or> (\<not> ha \<and> (\<exists>amount p.
                   c_get_market_making_size cfg mp False = Inr amount \<and> amount > 0
                 \<and> c_get_market_making_price cfg st2 mp False amount = Inr (Some p)
                 \<and> asks = [maker_limit_order cfg mp False amount p]))"
      by blast
    note f2 = places_only_fields [OF po]
    note pr = market_making_price_samples [OF sm2]
    have b': "bids = [] \<or> ((\<forall>ord \<in> set active_orders. \<not> is_buy ord) \<and> (\<exists>amount p.
                   c_get_market_making_size cfg mp True = Inr amount \<and> amount > 0
                 \<and> c_get_market_making_price cfg st mp True amount = Inr (Some p)
                 \<and> bids = [maker_limit_order cfg mp True amount p]))"
      using b hb pr by auto
    have a': "asks = [] \<or> ((\<forall>ord \<in> set active_orders. is_buy ord) \<and> (\<exists>amount p.
                   c_get_market_making_size cfg mp False = Inr amount \<and> amount > 0
                 \<and> c_get_market_making_price cfg st mp False amount = Inr (Some p)
                 \<and> asks = [maker_limit_order cfg mp False amount p]))"
      using a ha pr by auto
    have "placed st' = placed st @ bids @ asks" using pl pl2 by simp
    with b' a' have ex: "\<exists>bids asks. placed st' = placed st @ bids @ asks
            \<and> (bids = [] \<or> ((\<forall>ord \<in> set active_orders. \<not> is_buy ord) \<and> (\<exists>amount p.
                   c_get_market_making_size cfg mp True = Inr amount \<and> amount > 0
                 \<and> c_get_market_making_price cfg st mp True amount = Inr (Some p)
                 \<and> bids = [maker_limit_order cfg mp True amount p])))
            \<and> (asks = [] \<or> ((\<forall>ord \<in> set active_orders. is_buy ord) \<and> (\<exists>amount p.
                   c_get_market_making_size cfg mp False = Inr amount \<and> amount > 0
                 \<and> c_get_market_making_price cfg st mp False amount = Inr (Some p)
                 \<and> asks = [maker_limit_order cfg mp False amount p])))"
      by blast
    from f2 ts2 sm2 tm2 ex show ?thesis by simp
  qed
qed

lemma process_market_pair_places:
  assumes run: "c_process_market_pair cfg mp active_orders st = (Inr (), st')"
    and side: "\<forall>ord \<in> set active_orders. is_buy ord \<noteq> buy"
    and idle: "tracked_taker_orders st (pair_id mp) \<in> {None, Some []}"
    and sz: "c_get_market_making_size cfg mp buy = Inr amount" and pos: "amount > 0"
    and pr: "c_get_market_making_price cfg st mp buy amount = Inr (Some p)"
  shows "maker_limit_order cfg mp buy amount p \<in> set (new_orders st st')"
  using run
proof (cases rule: process_market_pair_unfold)
  case (raised e)
  then show ?thesis by simp
next
  case (checked hb ha na st1 st2)
  from check_active_orders_result [OF checked(1)]
  have co: "cancels_only st st1"
    and hb: "hb \<longleftrightarrow> (\<exists>ord \<in> set active_orders. is_buy ord)"
    and ha: "ha \<longleftrightarrow> (\<exists>ord \<in> set active_orders. \<not> is_buy ord)"
    by simp_all
  note f1 = cancels_only_fields [OF co]
  have sm2: "suggested_price_samples st2 = suggested_price_samples st"
    and pl2: "placed st2 = placed st"
    using checked(2) f1 by (simp_all split: if_splits)
  have free: "if buy then \<not> hb else \<not> ha"
    using side hb ha by (cases buy) auto
  then have "\<not> (hb \<and> ha)" by (cases buy) auto
  with checked(3) idle
  have create: "c_check_and_create_new_orders cfg mp hb ha st2 = (Inr (), st')"
    by auto
  from market_making_price_samples [OF sm2] pr
  have pr2: "c_get_market_making_price cfg st2 mp buy amount = Inr (Some p)" by simp
  from create_new_orders_places [OF create free sz pos pr2]
  show ?thesis by (simp add: new_orders_def pl2)
qed

lemma new_orders_append: "placed st' = placed st @ xs \<Longrightarrow> new_orders st st' = xs"
  by (simp add: new_orders_def)





text \<open>
  Claim C6, as stated, fails: a bid at 99 whose hedging price 99.5 is below
  \<open>99 * 1.01\<close> is the pair's only active order and is cancelled; no taker order is pending,
  the bid size is 1 and the bid price is 98.51; the run returns normally, places an ask and
  places no bid.
\<close>

theorem replacement_counterexample:
  "cancelled (snd (c_process_market_pair (ex_config True)
        (ex_pair 0 100 101 (Some (199 / 2)) (Some (201 / 2)) 99 101 1000 True)
        [ex_order ''bid-1'' True 99 1] (ex_strategy 100))) = [''bid-1'']
   \<and> tracked_taker_orders (ex_strategy 100) 0 = None
   \<and> c_get_market_making_size (ex_config True)
        (ex_pair 0 100 101 (Some (199 / 2)) (Some (201 / 2)) 99 101 1000 True) True = Inr 1
   \<and> c_get_market_making_price (ex_config True) (ex_strategy 100)
        (ex_pair 0 100 101 (Some (199 / 2)) (Some (201 / 2)) 99 101 1000 True) True 1 = Inr (Some (9851 / 100))
   \<and> fst (c_process_market_pair (ex_config True)
        (ex_pair 0 100 101 (Some (199 / 2)) (Some (201 / 2)) 99 101 1000 True)
        [ex_order ''bid-1'' True 99 1] (ex_strategy 100)) = Inr ()
   \<and> placed (snd (c_process_market_pair (ex_config True)
        (ex_pair 0 100 101 (Some (199 / 2)) (Some (201 / 2)) 99 101 1000 True)
        [ex_order ''bid-1'' True 99 1] (ex_strategy 100)))
       = [maker_limit_order (ex_config True)
            (ex_pair 0 100 101 (Some (199 / 2)) (Some (201 / 2)) 99 101 1000 True) False 1 (10151 / 100)]
   \<and> filter req_is_buy (placed (snd (c_process_market_pair (ex_config True)
        (ex_pair 0 100 101 (Some (199 / 2)) (Some (201 / 2)) 99 101 1000 True)
        [ex_order ''bid-1'' True 99 1] (ex_strategy 100)))) = []"
  by code_simp

text \<open>
  Claim C6, amended. On a tick in which the pair's active orders hold a bid (respectively
  an ask), whether the supervisor cancels it or keeps it, no new bid (respectively ask) is
  placed within that same tick: the cancelled order still counts as the pair's active bid
  (ask), and its replacement waits for a later tick. On a tick in which the pair's active
  orders hold no bid (respectively no ask) and no taker market orders are pending for the
  pair, a new bid (respectively ask) is sized, priced and placed on the maker venue within
  that tick, provided the computed size is positive, the computed price is not nil and the
  pair's processing returns without an exception.
\<close>

theorem replacement_on_a_later_tick:
  assumes run: "c_process_market_pair cfg market_pair active_orders st = (r, st')"
  shows "((\<exists>ord \<in> set active_orders. is_buy ord = buy)
            \<longrightarrow> (\<forall>q \<in> set (new_orders st st'). req_is_buy q \<noteq> buy))
       \<and> (r = Inr () \<and> (\<forall>ord \<in> set active_orders. is_buy ord \<noteq> buy)
            \<and> tracked_taker_orders st (pair_id market_pair) \<in> {None, Some []}
            \<and> c_get_market_making_size cfg market_pair buy = Inr amount \<and> amount > 0
            \<and> c_get_market_making_price cfg st market_pair buy amount = Inr (Some p)
            \<longrightarrow> maker_limit_order cfg market_pair buy amount p \<in> set (new_orders st st'))"
proof -
  from process_market_pair_result [OF run]
  obtain bids asks where pl: "placed st' = placed st @ bids @ asks"
    and b: "bids = [] \<or> ((\<forall>ord \<in> set active_orders. \<not> is_buy ord) \<and> (\<exists>amount p.
              bids = [maker_limit_order cfg market_pair True amount p]))"
    and a: "asks = [] \<or> ((\<forall>ord \<in> set active_orders. is_buy ord) \<and> (\<exists>amount p.
              asks = [maker_limit_order cfg market_pair False amount p]))"
    by blast
  have new: "new_orders st st' = bids @ asks"
    using pl by (rule new_orders_append)
  have 1: "(\<exists>ord \<in> set active_orders. is_buy ord = buy)
            \<longrightarrow> (\<forall>q \<in> set (new_orders st st'). req_is_buy q \<noteq> buy)"
    unfolding new using a b by (cases buy) (auto simp: maker_limit_order_def)
  have 2: "r = Inr () \<and> (\<forall>ord \<in> set active_orders. is_buy ord \<noteq> buy)
            \<and> tracked_taker_orders st (pair_id market_pair) \<in> {None, Some []}
            \<and> c_get_market_making_size cfg market_pair buy = Inr amount \<and> amount > 0
            \<and> c_get_market_making_price cfg st market_pair buy amount = Inr (Some p)
            \<longrightarrow> maker_limit_order cfg market_pair buy amount p \<in> set (new_orders st st')"
    using run process_market_pair_places by blast
  from 1 2 show ?thesis by blast
qed

theorem replacement_witness:
  "is_buy (ex_order ''bid-1'' True 99 1) = True
   \<and> filter req_is_buy (new_orders (ex_strategy 100) (snd (c_process_market_pair (ex_config True)
        (ex_pair 0 100 101 (Some (199 / 2)) (Some (201 / 2)) 99 101 1000 True)
        [ex_order ''bid-1'' True 99 1] (ex_strategy 100)))) = []
   \<and> fst (c_process_market_pair (ex_config True)
        (ex_pair 0 100 101 (Some (199 / 2)) (Some (201 / 2)) 99 101 1000 True)
        [] (ex_strategy 100)) = Inr ()
   \<and> tracked_taker_orders (ex_strategy 100)
        (pair_id (ex_pair 0 100 101 (Some (199 / 2)) (Some (201 / 2)) 99 101 1000 True)) = None
   \<and> c_get_market_making_size (ex_config True)
        (ex_pair 0 100 101 (Some (199 / 2)) (Some (201 / 2)) 99 101 1000 True) True = Inr 1
   \<and> (0 :: rat) < 1
   \<and> c_get_market_making_price (ex_config True) (ex_strategy 100)
        (ex_pair 0 100 101 (Some (199 / 2)) (Some (201 / 2)) 99 101 1000 True) True 1 = Inr (Some (9851 / 100))
   \<and> maker_limit_order (ex_config True)
        (ex_pair 0 100 101 (Some (199 / 2)) (Some (201 / 2)) 99 101 1000 True) True 1 (9851 / 100)
       \<in> set (new_orders (ex_strategy 100) (snd (c_process_market_pair (ex_config True)
        (ex_pair 0 100 101 (Some (199 / 2)) (Some (201 / 2)) 99 101 1000 True)
        [] (ex_strategy 100))))"
proof -
  let ?cfg = "ex_config True"
  let ?mp = "ex_pair 0 100 101 (Some (199 / 2)) (Some (201 / 2)) 99 101 1000 True"
  let ?ord = "ex_order ''bid-1'' True 99 1"
  let ?st = "ex_strategy 100"
  note same = replacement_on_a_later_tick
    [where cfg = ?cfg and market_pair = ?mp and active_orders = "[?ord]" and st = ?st
       and buy = True, OF surjective_pairing, THEN conjunct1]
  note later = replacement_on_a_later_tick
    [where cfg = ?cfg and market_pair = ?mp and active_orders = "[]" and st = ?st
       and buy = True and amount = 1 and p = "9851 / 100", OF surjective_pairing,
     THEN conjunct2]
  have bid: "is_buy ?ord = True"
    by code_simp
  then have "\<exists>ord \<in> set [?ord]. is_buy ord = True"
    by simp
  with same have "\<forall>q \<in> set (new_orders ?st (snd (c_process_market_pair ?cfg ?mp [?ord] ?st))).
                     req_is_buy q \<noteq> True"
    by blast
  then have none: "filter req_is_buy
                     (new_orders ?st (snd (c_process_market_pair ?cfg ?mp [?ord] ?st))) = []"
    by (simp add: filter_empty_conv)
  have ok: "fst (c_process_market_pair ?cfg ?mp [] ?st) = Inr ()"
    by code_simp
  have idle: "tracked_taker_orders ?st (pair_id ?mp) = None"
    by code_simp
  have sz: "c_get_market_making_size ?cfg ?mp True = Inr 1"
    by code_simp
  have pr: "c_get_market_making_price ?cfg ?st ?mp True 1 = Inr (Some (9851 / 100))"
    by code_simp
  have "maker_limit_order ?cfg ?mp True 1 (9851 / 100)
          \<in> set (new_orders ?st (snd (c_process_market_pair ?cfg ?mp [] ?st)))"
    using later ok idle sz pr by simp
  with bid none ok idle sz pr show ?thesis
    by simp
qed

subsection \<open>The anti-hysteresis timer across a tick\<close>

lemma process_market_pairs_timers:
  assumes "process_market_pairs cfg buckets pairs st = (r, st')"
    and dur: "0 \<le> anti_hysteresis_duration cfg"
  shows "current_timestamp st' = current_timestamp st
       \<and> (\<forall>q. anti_hysteresis_timers st' q = anti_hysteresis_timers st q
              \<or> (anti_hysteresis_timers st' q
                    = Some (current_timestamp st + anti_hysteresis_duration cfg)
                  \<and> current_timestamp st > timer_of st q))"
  using assms(1)
proof (induction pairs arbitrary: st)
  case Nil
  then show ?case by simp
next
  case (Cons mp pairs)
  obtain r1 st1 where step: "c_process_market_pair cfg mp (buckets (pair_id mp)) st = (r1, st1)"
    by (cases "c_process_market_pair cfg mp (buckets (pair_id mp)) st") auto
  from process_market_pair_result [OF step]
  have ts1: "current_timestamp st1 = current_timestamp st"
    and tm1: "anti_hysteresis_timers st1 = anti_hysteresis_timers st
            \<or> (anti_hysteresis_timers st1 =
                  (anti_hysteresis_timers st)(pair_id mp \<mapsto>
                     current_timestamp st + anti_hysteresis_duration cfg)
                \<and> current_timestamp st > timer_of st (pair_id mp))"
    by simp_all
  have one: "\<forall>q. anti_hysteresis_timers st1 q = anti_hysteresis_timers st q
              \<or> (anti_hysteresis_timers st1 q
                    = Some (current_timestamp st + anti_hysteresis_duration cfg)
                  \<and> current_timestamp st > timer_of st q)"
  proof
    fix q
    from tm1 show "anti_hysteresis_timers st1 q = anti_hysteresis_timers st q
              \<or> (anti_hysteresis_timers st1 q
                    = Some (current_timestamp st + anti_hysteresis_duration cfg)
                  \<and> current_timestamp st > timer_of st q)"
      by (cases "q = pair_id mp") auto
  qed
  show ?case
  proof (cases r1)
    case (Inl e)
    with Cons.prems step have "st' = st1" by simp
    with ts1 one show ?thesis by simp
  next
    case (Inr u)
    with Cons.prems step have "process_market_pairs cfg buckets pairs st1 = (r, st')" by simp
    from Cons.IH [OF this]
    have ts: "current_timestamp st' = current_timestamp st1"
      and rest: "\<forall>q. anti_hysteresis_timers st' q = anti_hysteresis_timers st1 q
              \<or> (anti_hysteresis_timers st' q
                    = Some (current_timestamp st1 + anti_hysteresis_duration cfg)
                  \<and> current_timestamp st1 > timer_of st1 q)"
      by simp_all
    have "anti_hysteresis_timers st' q = anti_hysteresis_timers st q
              \<or> (anti_hysteresis_timers st' q
                    = Some (current_timestamp st + anti_hysteresis_duration cfg)
                  \<and> current_timestamp st > timer_of st q)" for q
      using one [rule_format, of q] rest [rule_format, of q] ts1 dur
      by (auto simp: timer_of_def)
    with ts ts1 show ?thesis by simp
  qed
qed


text \<open>
  Claim C10. With \<open>anti_hysteresis_duration \<ge> 0\<close>, a tick never decreases a pair's
  anti-hysteresis timer (read with the default 0 of a pair that has none): the tick leaves
  the pair's timer as it is or reassigns it to the tick's timestamp plus
  \<open>anti_hysteresis_duration\<close>, and it reassigns only when the tick's timestamp strictly
  exceeds the existing timer value.
\<close>

theorem anti_hysteresis_timer_never_decreases:
  assumes tick: "c_tick cfg env timestamp st = (r, st')"
    and dur: "0 \<le> anti_hysteresis_duration cfg"
  shows "timer_of st q \<le> timer_of st' q
       \<and> (anti_hysteresis_timers st' q \<noteq> anti_hysteresis_timers st q \<longrightarrow>
            anti_hysteresis_timers st' q = Some (timestamp + anti_hysteresis_duration cfg)
          \<and> timestamp > timer_of st q)"
proof -
  let ?st0 = "st\<lparr>current_timestamp := timestamp\<rparr>"
  obtain r1 st1 where body: "tick_body cfg env ?st0 = (r1, st1)"
    by (cases "tick_body cfg env ?st0") auto
  with tick have st': "st' = st1\<lparr>last_timestamp := timestamp\<rparr>"
    by (simp add: c_tick_def)
  let ?st0' = "(if \<not> all_markets_ready ?st0
                 then ?st0\<lparr>all_markets_ready := markets_ready env\<rparr> else ?st0)"
  have step: "anti_hysteresis_timers st1 q = anti_hysteresis_timers st q
              \<or> (anti_hysteresis_timers st1 q
                    = Some (timestamp + anti_hysteresis_duration cfg)
                  \<and> timestamp > timer_of st q)"
  proof (cases "all_markets_ready ?st0'")
    case False
    with body have "st1 = ?st0'" by (simp add: tick_body_def Let_def)
    then have "anti_hysteresis_timers st1 = anti_hysteresis_timers st"
      by (simp split: if_splits)
    then show ?thesis by simp
  next
    case True
    with body have "process_market_pairs cfg
        (bucket_active_orders cfg env (active_maker_orders env) (\<lambda>p. []))
        (map snd (market_pairs cfg)) ?st0' = (r1, st1)"
      by (simp add: tick_body_def Let_def)
    from process_market_pairs_timers [OF this dur, THEN conjunct2, rule_format, of q]
    show ?thesis by (simp add: timer_of_def split: if_splits)
  qed
  from step st' dur show ?thesis
    by (auto simp: timer_of_def)
qed


theorem anti_hysteresis_timer_witness:
  "0 \<le> anti_hysteresis_duration
          (ex_config_pairs [ex_pair 0 100 101 (Some (199 / 2)) (Some (201 / 2)) 99 101 1000 True])
   \<and> timer_of (ex_strategy 99) 0 = 0
   \<and> timer_of (ex_strategy 99) 0 \<le> timer_of (snd (c_tick (ex_config_pairs [ex_pair 0 100 101 (Some (199 / 2)) (Some (201 / 2)) 99 101 1000 True])
        (ex_env [(''maker'', ex_order ''bid-1'' True 98 1)]) 100 (ex_strategy 99))) 0
   \<and> anti_hysteresis_timers (snd (c_tick (ex_config_pairs [ex_pair 0 100 101 (Some (199 / 2)) (Some (201 / 2)) 99 101 1000 True])
        (ex_env [(''maker'', ex_order ''bid-1'' True 98 1)]) 100 (ex_strategy 99))) 0 = Some 160
   \<and> cancelled (snd (c_tick (ex_config_pairs [ex_pair 0 100 101 (Some (199 / 2)) (Some (201 / 2)) 99 101 1000 True])
        (ex_env [(''maker'', ex_order ''bid-1'' True 98 1)]) 100 (ex_strategy 99))) = [''bid-1'']"
proof -
  let ?cfg = "ex_config_pairs [ex_pair 0 100 101 (Some (199 / 2)) (Some (201 / 2)) 99 101 1000 True]"
  let ?env = "ex_env [(''maker'', ex_order ''bid-1'' True 98 1)]"
  have dur: "0 \<le> anti_hysteresis_duration ?cfg"
    by code_simp
  note tick = anti_hysteresis_timer_never_decreases
    [where cfg = ?cfg and env = ?env and timestamp = 100 and st = "ex_strategy 99" and q = 0,
     OF surjective_pairing dur]
  have zero: "timer_of (ex_strategy 99) 0 = 0"
    by code_simp
  have set: "anti_hysteresis_timers (snd (c_tick ?cfg ?env 100 (ex_strategy 99))) 0 = Some 160"
    by code_simp
  have cancel: "cancelled (snd (c_tick ?cfg ?env 100 (ex_strategy 99))) = [''bid-1'']"
    by code_simp
  from tick dur zero set cancel show ?thesis
    by blast
qed

subsection \<open>Exceptions in the per-pair loop of a tick\<close>






end
